theory Spec2Isabelle
  imports Complex_Main "HOL-Library.Char_ord" "HOL-Library.List_Lexorder"
begin

section \<open>Decimal arithmetic\<close>

text \<open>
  The services keep every amount, balance and rate as a decimal string and compute on it
  with Decimal.js: \<^verbatim>\<open>new Decimal(a).plus(b)\<close>, \<^verbatim>\<open>.minus\<close>, \<^verbatim>\<open>.times\<close>, \<^verbatim>\<open>.lessThan\<close> and
  \<^verbatim>\<open>.toFixed(dp)\<close>. A decimal string is modelled by the rational number it denotes
  (\<open>"6.50"\<close> is \<open>13 / 2\<close>, \<open>"0.000650"\<close> is \<open>65 / 100000\<close>). The constructor and \<open>lessThan\<close> are
  exact. The library runs with its default configuration (no call of \<^verbatim>\<open>Decimal.set\<close>):
  \<open>plus\<close>, \<open>minus\<close> and \<open>times\<close> round the exact result to \<^verbatim>\<open>precision\<close> = 20 significant
  digits, and \<open>toFixed\<close> rounds to \<open>dp\<close> fractional digits, both in the rounding mode
  \<^verbatim>\<open>ROUND_HALF_UP\<close>: to the nearest neighbour, and away from zero when equidistant.
  \<open>toFixed\<close> is the value of the string returned and \<open>toFixed_string\<close> is the string.
\<close>

definition round_half_up :: "rat \<Rightarrow> int" where
  "round_half_up x = (if 0 \<le> x then \<lfloor>x + 1 / 2\<rfloor> else - \<lfloor>- x + 1 / 2\<rfloor>)"

definition toFixed :: "nat \<Rightarrow> rat \<Rightarrow> rat" where
  "toFixed dp x = of_int (round_half_up (x * 10 ^ dp)) / 10 ^ dp"

text \<open>\<open>fits dp x\<close>: the decimal \<open>x\<close> has at most \<open>dp\<close> fractional digits.\<close>

definition fits :: "nat \<Rightarrow> rat \<Rightarrow> bool" where
  "fits dp x = (of_int \<lfloor>x * 10 ^ dp\<rfloor> = x * 10 ^ dp)"

text \<open>
  Rounding to \<open>sd\<close> significant digits. \<open>digits n\<close> is the number of decimal digits of the
  integer \<open>n\<close> (1 below 10), and \<open>exponent x\<close> the decimal exponent of \<open>x \<noteq> 0\<close>, the position
  of its first significant digit: \<open>10 powi exponent x \<le> \<bar>x\<bar> < 10 powi (exponent x + 1)\<close>.
\<close>

function digits :: "int \<Rightarrow> nat" where
  "digits n = (if n < 10 then 1 else Suc (digits (n div 10)))"
  by pat_completeness auto
termination
  by (relation "measure nat") auto

declare digits.simps [simp del]

definition exponent :: "rat \<Rightarrow> int" where
  "exponent x =
     (if 1 \<le> \<bar>x\<bar> then int (digits \<lfloor>\<bar>x\<bar>\<rfloor>) - 1
      else - int (digits (\<lceil>1 / \<bar>x\<bar>\<rceil> - 1)))"

definition toSignificantDigits :: "nat \<Rightarrow> rat \<Rightarrow> rat" where
  "toSignificantDigits sd x =
     (if x = 0 then 0
      else of_int (round_half_up (x * 10 powi (int sd - 1 - exponent x)))
             / 10 powi (int sd - 1 - exponent x))"

text \<open>\<^verbatim>\<open>x.plus(y)\<close>, \<^verbatim>\<open>x.minus(y)\<close> and \<^verbatim>\<open>x.times(y)\<close> at the default precision.\<close>

definition plus_decimal :: "rat \<Rightarrow> rat \<Rightarrow> rat" where
  "plus_decimal x y = toSignificantDigits 20 (x + y)"

definition minus_decimal :: "rat \<Rightarrow> rat \<Rightarrow> rat" where
  "minus_decimal x y = toSignificantDigits 20 (x - y)"

definition times_decimal :: "rat \<Rightarrow> rat \<Rightarrow> rat" where
  "times_decimal x y = toSignificantDigits 20 (x * y)"

definition digit_char :: "nat \<Rightarrow> char" where
  "digit_char d = ''0123456789'' ! d"

function show_nat :: "nat \<Rightarrow> string" where
  "show_nat n = (if n < 10 then [digit_char n] else show_nat (n div 10) @ [digit_char (n mod 10)])"
  by pat_completeness auto
termination
  by (relation "measure id") auto

declare show_nat.simps [simp del]

definition show_int :: "int \<Rightarrow> string" where
  "show_int i = (if i < 0 then CHR ''-'' # show_nat (nat (- i)) else show_nat (nat i))"

definition toFixed_string :: "nat \<Rightarrow> rat \<Rightarrow> string" where
  "toFixed_string dp x =
     (let m = nat \<bar>round_half_up (x * 10 ^ dp)\<bar>;
          ip = show_nat (m div 10 ^ dp);
          fp = show_nat (m mod 10 ^ dp)
      in (if x < 0 then ''-'' else []) @ ip @
         (if dp = 0 then [] else CHR ''.'' # replicate (dp - length fp) (CHR ''0'') @ fp))"

text \<open>\<^verbatim>\<open>FxService.convertAmount\<close>: \<^verbatim>\<open>new Decimal(amount).times(rate).toFixed(2)\<close>.\<close>

definition convertAmount :: "rat \<Rightarrow> rat \<Rightarrow> rat" where
  "convertAmount amount rate = toFixed 2 (times_decimal amount rate)"

definition convertAmount_string :: "rat \<Rightarrow> rat \<Rightarrow> string" where
  "convertAmount_string amount rate = toFixed_string 2 (times_decimal amount rate)"

section \<open>Entities\<close>

text \<open>
  The enums and entities of \<^verbatim>\<open>wallet.entity.ts\<close>, \<^verbatim>\<open>transaction.entity.ts\<close> and
  \<^verbatim>\<open>fx-rate.entity.ts\<close>. Several classes share field names, so each record's fields carry
  a prefix: \<open>w_\<close> (Wallet), \<open>t_\<close> (Transaction), \<open>fr_\<close> (FxRate), \<open>ri_\<close> (FxRateInfo),
  \<open>c_\<close> (ConvertCurrencyDto), \<open>f_\<close> (FundWalletDto). Columns the database generates
  (\<open>id\<close>, \<open>version\<close>, \<open>createdAt\<close>, \<open>updatedAt\<close>) are left out, and so is the table of users:
  a \<open>userId\<close> is the identifier of a registered user (the controllers take it from the
  authenticated request). Dates are milliseconds
  since the epoch, as \<^verbatim>\<open>Date.getTime()\<close> gives them. A decimal field of an entity in
  memory holds the value the service assigned to it; of a row in a table, the value its
  column stores (see \<open>numeric_column\<close> below).
\<close>

datatype Currency = NGN | USD | EUR | GBP

fun currency_code :: "Currency \<Rightarrow> string" where
  "currency_code NGN = ''NGN''"
| "currency_code USD = ''USD''"
| "currency_code EUR = ''EUR''"
| "currency_code GBP = ''GBP''"

record Wallet =
  w_userId :: string
  w_currency :: Currency
  w_balance :: rat
  w_lockedBalance :: rat

datatype TransactionType = FUND | CONVERT | TRADE

datatype TransactionStatus = PENDING | COMPLETED | FAILED

datatype Metadata =
    FundingMethod string
  | RateMetadata string int int "string option"

record Transaction =
  t_userId :: string
  t_type :: TransactionType
  t_fromCurrency :: "Currency option"
  t_fromAmount :: "rat option"
  t_toCurrency :: "Currency option"
  t_toAmount :: "rat option"
  t_fxRate :: "rat option"
  t_status :: TransactionStatus
  t_reference :: string
  t_metadata :: Metadata
  t_errorMessage :: "string option"

record FxRate =
  fr_fromCurrency :: Currency
  fr_toCurrency :: Currency
  fr_rate :: rat
  fr_source :: "string option"
  fr_fetchedAt :: int

record FxRateInfo =
  ri_fromCurrency :: Currency
  ri_toCurrency :: Currency
  ri_rate :: rat
  ri_timestamp :: int
  ri_ageSeconds :: int
  ri_source :: string
  ri_warning :: "string option"

record ConvertCurrencyDto =
  c_fromCurrency :: Currency
  c_toCurrency :: Currency
  c_amount :: rat
  c_reference :: string

record FundWalletDto =
  f_currency :: Currency
  f_amount :: rat
  f_reference :: string

datatype Exception =
    BadRequestException string
  | NotFoundException string
  | QueryFailedError string
  | Error string

fun message :: "Exception \<Rightarrow> string" where
  "message (BadRequestException m) = m"
| "message (NotFoundException m) = m"
| "message (QueryFailedError m) = m"
| "message (Error m) = m"

section \<open>Storage, cache and the outside world\<close>

text \<open>
  Every access of a service to the database, the cache or the rate provider is recorded
  as an event, in the order the code performs it.
\<close>

datatype Event =
    FindTransaction string
  | SaveTransaction string TransactionStatus
  | LockWallet string Currency
  | SaveWallet string Currency
  | StartTransaction
  | CommitTransaction
  | RollbackTransaction
  | Release
  | CacheGet Currency Currency
  | CacheSet Currency Currency
  | ApiGet Currency
  | SaveRate Currency Currency
  | FindLastRate Currency Currency

text \<open>
  The state: the three tables, the cache and the events so far. \<open>wallets\<close> is keyed by
  (userId, currency) and \<open>transactions\<close> by reference, the two unique indexes.
  \<open>cache\<close> holds the entries that have not expired (the cache manager drops an entry when
  its time-to-live ends).
\<close>

record State =
  wallets :: "string \<times> Currency \<Rightarrow> Wallet option"
  transactions :: "string \<Rightarrow> Transaction option"
  fx_rates :: "FxRate list"
  cache :: "Currency \<times> Currency \<Rightarrow> FxRateInfo option"
  trace :: "Event list"

text \<open>
  What one call meets outside the process: the clock, the provider's answer to
  \<^verbatim>\<open>GET apiUrl/base\<close> (an error message, or the \<open>rates\<close> table of the response), and whether
  the three calls the code guards with \<^verbatim>\<open>try\<close> succeed.
\<close>

record Env =
  now :: int
  api :: "Currency \<Rightarrow> string + (Currency \<Rightarrow> rat option)"
  cache_set_ok :: bool
  rate_save_ok :: bool
  rate_read_ok :: bool

definition emit :: "Event \<Rightarrow> State \<Rightarrow> State" where
  "emit e s = s\<lparr>trace := trace s @ [e]\<rparr>"

text \<open>
  A query runner's transaction works on the tables \<open>wallets\<close> and \<open>transactions\<close>;
  \<^verbatim>\<open>rollbackTransaction\<close> puts both back to what they were at \<^verbatim>\<open>startTransaction\<close>
  (the state \<open>s0\<close>).
\<close>

definition rollbackTransaction :: "State \<Rightarrow> State \<Rightarrow> State" where
  "rollbackTransaction s0 s =
     emit RollbackTransaction (s\<lparr>wallets := wallets s0, transactions := transactions s0\<rparr>)"

text \<open>
  A column declared \<^verbatim>\<open>{ type: "decimal", precision: p, scale: s }\<close> is a PostgreSQL
  \<open>numeric(p, s)\<close>: a value written to it is rounded to \<open>s\<close> fractional digits (to the
  nearest, away from zero when equidistant), and the write is refused with ``numeric field
  overflow'' (a \<^verbatim>\<open>QueryFailedError\<close>) when the rounded value has more than \<open>p - s\<close> integer
  digits. \<open>nullable_column\<close> is such a column with \<^verbatim>\<open>nullable: true\<close>.
\<close>

definition numeric_column :: "nat \<Rightarrow> nat \<Rightarrow> rat \<Rightarrow> Exception + rat" where
  "numeric_column p s x =
     (if \<bar>toFixed s x\<bar> < 10 ^ (p - s) then Inr (toFixed s x)
      else Inl (QueryFailedError ''numeric field overflow''))"

definition nullable_column :: "nat \<Rightarrow> nat \<Rightarrow> rat option \<Rightarrow> Exception + rat option" where
  "nullable_column p s v =
     (case v of
        None \<Rightarrow> Inr None
      | Some x \<Rightarrow> (case numeric_column p s x of Inl e \<Rightarrow> Inl e | Inr y \<Rightarrow> Inr (Some y)))"

text \<open>
  The row the table \<open>transactions\<close> stores for an entity: \<open>fromAmount\<close> and \<open>toAmount\<close> are
  \<open>numeric(15, 2)\<close> and \<open>fxRate\<close> is \<open>numeric(10, 6)\<close>. The entity in memory keeps the values
  the service assigned.
\<close>

definition transaction_row :: "Transaction \<Rightarrow> Exception + Transaction" where
  "transaction_row t =
     (case nullable_column 15 2 (t_fromAmount t) of
        Inl e \<Rightarrow> Inl e
      | Inr fromAmount \<Rightarrow>
          (case nullable_column 15 2 (t_toAmount t) of
             Inl e \<Rightarrow> Inl e
           | Inr toAmount \<Rightarrow>
               (case nullable_column 10 6 (t_fxRate t) of
                  Inl e \<Rightarrow> Inl e
                | Inr fxRate \<Rightarrow>
                    Inr (t\<lparr>t_fromAmount := fromAmount, t_toAmount := toAmount,
                           t_fxRate := fxRate\<rparr>))))"

text \<open>
  \<^verbatim>\<open>save\<close> of a new transaction is an insert, which a column may refuse and which the
  unique index on \<open>reference\<close> refuses when the reference is taken; of a loaded one, an
  update, which a column may refuse. A refused statement writes nothing.
\<close>

definition insertTransaction :: "Transaction \<Rightarrow> State \<Rightarrow> (Exception + unit) \<times> State" where
  "insertTransaction t s =
     (let s1 = emit (SaveTransaction (t_reference t) (t_status t)) s
      in case transaction_row t of
           Inl e \<Rightarrow> (Inl e, s1)
         | Inr row \<Rightarrow>
             (case transactions s1 (t_reference t) of
                Some _ \<Rightarrow>
                  (Inl (QueryFailedError ''duplicate key value violates unique constraint''), s1)
              | None \<Rightarrow> (Inr (), s1\<lparr>transactions := (transactions s1)(t_reference t \<mapsto> row)\<rparr>)))"

definition updateTransaction ::
  "string \<Rightarrow> Transaction \<Rightarrow> State \<Rightarrow> (Exception + unit) \<times> State" where
  "updateTransaction reference t s =
     (let s1 = emit (SaveTransaction reference (t_status t)) s
      in case transaction_row t of
           Inl e \<Rightarrow> (Inl e, s1)
         | Inr row \<Rightarrow> (Inr (), s1\<lparr>transactions := (transactions s1)(reference \<mapsto> row)\<rparr>))"

text \<open>
  \<^verbatim>\<open>queryRunner.manager.save(wallet)\<close> writes the row that was read (or is created) for
  \<open>(userId, currency)\<close>; \<open>balance\<close> is a \<open>numeric(15, 2)\<close> column.
\<close>

definition saveWallet ::
  "string \<Rightarrow> Currency \<Rightarrow> Wallet \<Rightarrow> State \<Rightarrow> (Exception + unit) \<times> State" where
  "saveWallet userId currency w s =
     (let s1 = emit (SaveWallet userId currency) s
      in case numeric_column 15 2 (w_balance w) of
           Inl e \<Rightarrow> (Inl e, s1)
         | Inr balance \<Rightarrow>
             (Inr (), s1\<lparr>wallets := (wallets s1)((userId, currency) \<mapsto> w\<lparr>w_balance := balance\<rparr>)\<rparr>))"

text \<open>\<^verbatim>\<open>walletRepository.create({userId, currency, balance: "0.00", lockedBalance: "0.00"})\<close>.\<close>

definition new_wallet :: "string \<Rightarrow> Currency \<Rightarrow> Wallet" where
  "new_wallet userId currency =
     \<lparr>w_userId = userId, w_currency = currency, w_balance = 0, w_lockedBalance = 0\<rparr>"

text \<open>
  The wallet a locked read finds for \<open>(userId, currency)\<close>, or the fresh one the service
  creates when there is none (\<^verbatim>\<open>if (!wallet) wallet = this.walletRepository.create(...)\<close>).
\<close>

definition find_or_create :: "State \<Rightarrow> string \<Rightarrow> Currency \<Rightarrow> Wallet" where
  "find_or_create s userId currency =
     (case wallets s (userId, currency) of
        None \<Rightarrow> new_wallet userId currency
      | Some w \<Rightarrow> w)"

section \<open>WalletService\<close>

text \<open>
  \<^verbatim>\<open>deductBalance\<close>: read the wallet under a pessimistic write lock, refuse a missing wallet
  and a balance below the amount, otherwise save the wallet with the balance
  \<^verbatim>\<open>currentBalance.minus(deductAmount).toFixed(2)\<close> and return it.
\<close>

definition deductBalance ::
  "string \<Rightarrow> Currency \<Rightarrow> rat \<Rightarrow> State \<Rightarrow> (Exception + Wallet) \<times> State" where
  "deductBalance userId currency amount s =
     (let s1 = emit (LockWallet userId currency) s
      in case wallets s1 (userId, currency) of
           None \<Rightarrow>
             (Inl (NotFoundException (''Wallet not found for currency '' @ currency_code currency)), s1)
         | Some wallet \<Rightarrow>
             (if w_balance wallet < amount
              then (Inl (BadRequestException
                      (''Insufficient balance in '' @ currency_code currency @ '' wallet'')), s1)
              else (let wallet' = wallet\<lparr>w_balance :=
                                 toFixed 2 (minus_decimal (w_balance wallet) amount)\<rparr>
                    in case saveWallet userId currency wallet' s1 of
                         (Inl e, s2) \<Rightarrow> (Inl e, s2)
                       | (Inr _, s2) \<Rightarrow> (Inr wallet', s2))))"

text \<open>
  \<^verbatim>\<open>addBalance\<close>: read the wallet under the lock, create it at \<open>0.00\<close> when missing, save it
  with the balance \<^verbatim>\<open>currentBalance.plus(addAmount).toFixed(2)\<close> and return it. The method has
  no statement that inspects the amount.
\<close>

definition addBalance ::
  "string \<Rightarrow> Currency \<Rightarrow> rat \<Rightarrow> State \<Rightarrow> (Exception + Wallet) \<times> State" where
  "addBalance userId currency amount s =
     (let s1 = emit (LockWallet userId currency) s;
          wallet = find_or_create s1 userId currency;
          wallet' = wallet\<lparr>w_balance := toFixed 2 (plus_decimal (w_balance wallet) amount)\<rparr>
      in case saveWallet userId currency wallet' s1 of
           (Inl e, s2) \<Rightarrow> (Inl e, s2)
         | (Inr _, s2) \<Rightarrow> (Inr wallet', s2))"

datatype FundResponse =
    FundAlreadyProcessed string Transaction
  | FundDone string Transaction Wallet

text \<open>
  \<open>fund_transaction\<close> is the pending transaction \<^verbatim>\<open>fundWallet\<close> creates and
  \<open>fund_unit_of_work\<close> its \<^verbatim>\<open>try\<close> block, from the pending insert to the commit. The
  response carries the entities, with the values the service assigned.
\<close>

definition fund_transaction :: "string \<Rightarrow> FundWalletDto \<Rightarrow> Transaction" where
  "fund_transaction userId dto =
     \<lparr>t_userId = userId, t_type = FUND, t_fromCurrency = None, t_fromAmount = None,
      t_toCurrency = Some (f_currency dto), t_toAmount = Some (f_amount dto),
      t_fxRate = None, t_status = PENDING, t_reference = f_reference dto,
      t_metadata = FundingMethod ''direct'', t_errorMessage = None\<rparr>"

definition fund_unit_of_work ::
  "string \<Rightarrow> FundWalletDto \<Rightarrow> State \<Rightarrow> (Exception + FundResponse) \<times> State" where
  "fund_unit_of_work userId dto s =
     (let transaction = fund_transaction userId dto
      in case insertTransaction transaction s of
           (Inl e, s1) \<Rightarrow> (Inl e, s1)
         | (Inr _, s1) \<Rightarrow>
             (let s2 = emit (LockWallet userId (f_currency dto)) s1;
                  wallet = find_or_create s2 userId (f_currency dto);
                  wallet' = wallet\<lparr>w_balance :=
                               toFixed 2 (plus_decimal (w_balance wallet) (f_amount dto))\<rparr>
              in case saveWallet userId (f_currency dto) wallet' s2 of
                   (Inl e, s3) \<Rightarrow> (Inl e, s3)
                 | (Inr _, s3) \<Rightarrow>
                     (let transaction' = transaction\<lparr>t_status := COMPLETED\<rparr>
                      in case updateTransaction (f_reference dto) transaction' s3 of
                           (Inl e, s4) \<Rightarrow> (Inl e, s4)
                         | (Inr _, s4) \<Rightarrow>
                             (Inr (FundDone ''Wallet funded successfully'' transaction' wallet'),
                              emit CommitTransaction s4))))"

definition fundWallet ::
  "string \<Rightarrow> FundWalletDto \<Rightarrow> State \<Rightarrow> (Exception + FundResponse) \<times> State" where
  "fundWallet userId dto s =
     (let s1 = emit (FindTransaction (f_reference dto)) s
      in case transactions s1 (f_reference dto) of
           Some existingTransaction \<Rightarrow>
             (if t_status existingTransaction = COMPLETED
              then (Inr (FundAlreadyProcessed ''Transaction already processed'' existingTransaction), s1)
              else if t_status existingTransaction = PENDING
              then (Inl (BadRequestException ''Transaction is being processed. Please wait.''), s1)
              else (Inl (BadRequestException ''Transaction has failed. Please use a new reference.''), s1))
         | None \<Rightarrow>
             (let s2 = emit StartTransaction s1
              in case fund_unit_of_work userId dto s2 of
                   (Inr r, s3) \<Rightarrow> (Inr r, emit Release s3)
                 | (Inl e, s3) \<Rightarrow> (Inl e, emit Release (rollbackTransaction s2 s3))))"

section \<open>FxService\<close>

text \<open>
  \<^verbatim>\<open>fetchFromApi\<close>: the request may fail; a missing or zero rate for the target currency
  is refused (\<^verbatim>\<open>!rates[toCurrency]\<close>); otherwise the rate is rounded to six fractional
  digits and stamped with the current time.
\<close>

definition fetchFromApi :: "Env \<Rightarrow> Currency \<Rightarrow> Currency \<Rightarrow> Exception + FxRateInfo" where
  "fetchFromApi env fromCurrency toCurrency =
     (case api env fromCurrency of
        Inl m \<Rightarrow> Inl (Error m)
      | Inr rates \<Rightarrow>
          (case rates toCurrency of
             None \<Rightarrow> Inl (Error (''Rate not available for '' @ currency_code toCurrency))
           | Some r \<Rightarrow>
               (if r = 0
                then Inl (Error (''Rate not available for '' @ currency_code toCurrency))
                else Inr \<lparr>ri_fromCurrency = fromCurrency, ri_toCurrency = toCurrency,
                          ri_rate = toFixed 6 r, ri_timestamp = now env, ri_ageSeconds = 0,
                          ri_source = ''exchangerate-api'', ri_warning = None\<rparr>)))"

text \<open>\<^verbatim>\<open>saveRateToDatabase\<close> swallows a failing save.\<close>

definition saveRateToDatabase :: "Env \<Rightarrow> FxRateInfo \<Rightarrow> State \<Rightarrow> State" where
  "saveRateToDatabase env rateInfo s =
     (let s1 = emit (SaveRate (ri_fromCurrency rateInfo) (ri_toCurrency rateInfo)) s
      in if rate_save_ok env
         then s1\<lparr>fx_rates :=
                   \<lparr>fr_fromCurrency = ri_fromCurrency rateInfo, fr_toCurrency = ri_toCurrency rateInfo,
                    fr_rate = ri_rate rateInfo, fr_source = Some (ri_source rateInfo),
                    fr_fetchedAt = now env\<rparr> # fx_rates s1\<rparr>
         else s1)"

text \<open>The row with the greatest \<open>fetchedAt\<close> (\<^verbatim>\<open>order: { fetchedAt: "DESC" }\<close>).\<close>

fun latest :: "FxRate list \<Rightarrow> FxRate option" where
  "latest [] = None"
| "latest (r # rs) =
     (case latest rs of
        None \<Rightarrow> Some r
      | Some r' \<Rightarrow> if fr_fetchedAt r < fr_fetchedAt r' then Some r' else Some r)"

text \<open>
  \<^verbatim>\<open>getLastKnownRate\<close>: \<open>null\<close> when no row matches or the query fails; otherwise the
  row as an \<open>FxRateInfo\<close> (\<open>last_known\<close>), with \<^verbatim>\<open>source: fxRate.source || "database"\<close>.
\<close>

definition last_known :: "FxRate \<Rightarrow> FxRateInfo" where
  "last_known fxRate =
     \<lparr>ri_fromCurrency = fr_fromCurrency fxRate, ri_toCurrency = fr_toCurrency fxRate,
      ri_rate = fr_rate fxRate, ri_timestamp = fr_fetchedAt fxRate, ri_ageSeconds = 0,
      ri_source = (case fr_source fxRate of
                     None \<Rightarrow> ''database''
                   | Some src \<Rightarrow> if src = [] then ''database'' else src),
      ri_warning = None\<rparr>"

definition getLastKnownRate :: "Env \<Rightarrow> Currency \<Rightarrow> Currency \<Rightarrow> State \<Rightarrow> FxRateInfo option" where
  "getLastKnownRate env fromCurrency toCurrency s =
     (if rate_read_ok env
      then (case latest (filter (\<lambda>r. fr_fromCurrency r = fromCurrency \<and> fr_toCurrency r = toCurrency)
                          (fx_rates s)) of
              None \<Rightarrow> None
            | Some fxRate \<Rightarrow> Some (last_known fxRate))
      else None)"

text \<open>The warning of a fallback rate, a template string over \<open>ageSeconds\<close>.\<close>

definition stale_warning :: "int \<Rightarrow> string" where
  "stale_warning ageSeconds =
     ''Using cached rate from '' @ show_int ageSeconds @ '' seconds ago. Current rates unavailable.''"

text \<open>The \<^verbatim>\<open>catch\<close> block of \<^verbatim>\<open>getRate\<close>: the last known rate, if younger than an hour.\<close>

definition rate_fallback ::
  "Env \<Rightarrow> Currency \<Rightarrow> Currency \<Rightarrow> State \<Rightarrow> (Exception + FxRateInfo) \<times> State" where
  "rate_fallback env fromCurrency toCurrency s =
     (let s1 = emit (FindLastRate fromCurrency toCurrency) s
      in case getLastKnownRate env fromCurrency toCurrency s1 of
           Some lastKnownRate \<Rightarrow>
             (let ageSeconds = (now env - ri_timestamp lastKnownRate) div 1000
              in if ageSeconds < 3600
                 then (Inr (lastKnownRate\<lparr>ri_ageSeconds := ageSeconds,
                              ri_warning := Some (stale_warning ageSeconds)\<rparr>), s1)
                 else (Inl (Error ''Exchange rate service unavailable. Please try again later.''), s1))
         | None \<Rightarrow> (Inl (Error ''Exchange rate service unavailable. Please try again later.''), s1))"

definition getRate ::
  "Env \<Rightarrow> Currency \<Rightarrow> Currency \<Rightarrow> State \<Rightarrow> (Exception + FxRateInfo) \<times> State" where
  "getRate env fromCurrency toCurrency s =
     (if fromCurrency = toCurrency
      then (Inr \<lparr>ri_fromCurrency = fromCurrency, ri_toCurrency = toCurrency, ri_rate = 1,
                 ri_timestamp = now env, ri_ageSeconds = 0, ri_source = ''direct'',
                 ri_warning = None\<rparr>, s)
      else (let s1 = emit (CacheGet fromCurrency toCurrency) s
            in case cache s1 (fromCurrency, toCurrency) of
                 Some cachedRate \<Rightarrow> (Inr cachedRate, s1)
               | None \<Rightarrow>
                   (let s2 = emit (ApiGet fromCurrency) s1
                    in case fetchFromApi env fromCurrency toCurrency of
                         Inr rate \<Rightarrow>
                           (let s3 = emit (CacheSet fromCurrency toCurrency) s2
                            in if cache_set_ok env
                               then (Inr rate,
                                     saveRateToDatabase env rate
                                       (s3\<lparr>cache := (cache s3)((fromCurrency, toCurrency) \<mapsto> rate)\<rparr>))
                               else rate_fallback env fromCurrency toCurrency s3)
                       | Inl e \<Rightarrow> rate_fallback env fromCurrency toCurrency s2)))"

section \<open>TradingService\<close>

datatype ConvertResponse =
    ConvertAlreadyProcessed string Transaction
  | ConvertDone string Transaction FxRateInfo

text \<open>
  \<open>convert_transaction\<close> is the pending transaction \<^verbatim>\<open>convertCurrency\<close> creates and
  \<open>convert_unit_of_work\<close> its \<^verbatim>\<open>try\<close> block: insert the pending transaction, deduct from
  the source wallet, add to the destination wallet, mark the transaction completed, commit.
  It returns the entity, from whose fields the response is built.
\<close>

definition convert_transaction ::
  "string \<Rightarrow> ConvertCurrencyDto \<Rightarrow> FxRateInfo \<Rightarrow> rat \<Rightarrow> Transaction" where
  "convert_transaction userId dto rateInfo convertedAmount =
     \<lparr>t_userId = userId, t_type = CONVERT,
      t_fromCurrency = Some (c_fromCurrency dto), t_fromAmount = Some (c_amount dto),
      t_toCurrency = Some (c_toCurrency dto), t_toAmount = Some convertedAmount,
      t_fxRate = Some (ri_rate rateInfo), t_status = PENDING, t_reference = c_reference dto,
      t_metadata = RateMetadata (ri_source rateInfo) (ri_timestamp rateInfo)
                     (ri_ageSeconds rateInfo) (ri_warning rateInfo),
      t_errorMessage = None\<rparr>"

definition convert_unit_of_work ::
  "string \<Rightarrow> ConvertCurrencyDto \<Rightarrow> FxRateInfo \<Rightarrow> rat \<Rightarrow> State \<Rightarrow> (Exception + Transaction) \<times> State" where
  "convert_unit_of_work userId dto rateInfo convertedAmount s =
     (let transaction = convert_transaction userId dto rateInfo convertedAmount
      in case insertTransaction transaction s of
           (Inl e, s1) \<Rightarrow> (Inl e, s1)
         | (Inr _, s1) \<Rightarrow>
             (case deductBalance userId (c_fromCurrency dto) (c_amount dto) s1 of
                (Inl e, s2) \<Rightarrow> (Inl e, s2)
              | (Inr _, s2) \<Rightarrow>
                  (case addBalance userId (c_toCurrency dto) convertedAmount s2 of
                     (Inl e, s3) \<Rightarrow> (Inl e, s3)
                   | (Inr _, s3) \<Rightarrow>
                       (let transaction' = transaction\<lparr>t_status := COMPLETED\<rparr>
                        in case updateTransaction (c_reference dto) transaction' s3 of
                             (Inl e, s4) \<Rightarrow> (Inl e, s4)
                           | (Inr _, s4) \<Rightarrow> (Inr transaction', emit CommitTransaction s4)))))"

text \<open>
  The inner \<^verbatim>\<open>try\<close> of the \<^verbatim>\<open>catch\<close> block: look the reference up through the repository
  (outside the rolled-back transaction) and mark a pending transaction as failed. An error
  of the update is logged and dropped.
\<close>

definition mark_failed :: "string \<Rightarrow> Exception \<Rightarrow> State \<Rightarrow> State" where
  "mark_failed reference error s =
     (let s1 = emit (FindTransaction reference) s
      in case transactions s1 reference of
           None \<Rightarrow> s1
         | Some failedTransaction \<Rightarrow>
             (if t_status failedTransaction = PENDING
              then snd (updateTransaction reference
                          (failedTransaction\<lparr>t_status := FAILED,
                             t_errorMessage := Some (message error)\<rparr>) s1)
              else s1))"

definition convertCurrency ::
  "Env \<Rightarrow> string \<Rightarrow> ConvertCurrencyDto \<Rightarrow> State \<Rightarrow> (Exception + ConvertResponse) \<times> State" where
  "convertCurrency env userId dto s =
     (if c_fromCurrency dto = c_toCurrency dto
      then (Inl (BadRequestException ''Cannot convert to the same currency''), s)
      else (let s1 = emit (FindTransaction (c_reference dto)) s
            in case transactions s1 (c_reference dto) of
                 Some existingTransaction \<Rightarrow>
                   (if t_status existingTransaction = COMPLETED
                    then (Inr (ConvertAlreadyProcessed ''Conversion already processed''
                                 existingTransaction), s1)
                    else if t_status existingTransaction = PENDING
                    then (Inl (BadRequestException ''Conversion is being processed. Please wait.''), s1)
                    else (Inl (BadRequestException
                                 ''Conversion has failed. Please use a new reference.''), s1))
               | None \<Rightarrow>
                   (case getRate env (c_fromCurrency dto) (c_toCurrency dto) s1 of
                      (Inl e, s2) \<Rightarrow> (Inl e, s2)
                    | (Inr rateInfo, s2) \<Rightarrow>
                        (let convertedAmount = convertAmount (c_amount dto) (ri_rate rateInfo);
                             s3 = emit StartTransaction s2
                         in case convert_unit_of_work userId dto rateInfo convertedAmount s3 of
                              (Inr transaction, s4) \<Rightarrow>
                                (Inr (ConvertDone ''Currency converted successfully'' transaction rateInfo),
                                 emit Release s4)
                            | (Inl e, s4) \<Rightarrow>
                                (Inl e, emit Release
                                          (mark_failed (c_reference dto) e
                                             (rollbackTransaction s3 s4)))))))"

section \<open>Sequences of operations\<close>

text \<open>
  The balance of a ledger account: the balance of the wallet row, and \<open>0.00\<close> for an
  account whose row a credit or a funding has yet to create.
\<close>

definition balance_of :: "State \<Rightarrow> string \<Rightarrow> Currency \<Rightarrow> rat" where
  "balance_of s userId currency = w_balance (find_or_create s userId currency)"

text \<open>
  The operations on the ledger: the two entry points \<^verbatim>\<open>fundWallet\<close> and \<^verbatim>\<open>convertCurrency\<close>
  (\<^verbatim>\<open>tradeCurrency\<close> only calls \<^verbatim>\<open>convertCurrency\<close>) and the two public wallet methods
  \<^verbatim>\<open>addBalance\<close> (credit) and \<^verbatim>\<open>deductBalance\<close> (debit). \<open>exec\<close> is the state an operation leaves,
  whether it returns or throws, and \<open>run\<close> executes a list of operations in order.
\<close>

datatype Operation =
    Fund string FundWalletDto
  | Credit string Currency rat
  | Debit string Currency rat
  | Convert Env string ConvertCurrencyDto

fun exec :: "Operation \<Rightarrow> State \<Rightarrow> State" where
  "exec (Fund userId dto) s = snd (fundWallet userId dto s)"
| "exec (Credit userId currency amount) s = snd (addBalance userId currency amount s)"
| "exec (Debit userId currency amount) s = snd (deductBalance userId currency amount s)"
| "exec (Convert env userId dto) s = snd (convertCurrency env userId dto s)"

fun run :: "Operation list \<Rightarrow> State \<Rightarrow> State" where
  "run [] s = s"
| "run (op # ops) s = run ops (exec op s)"

text \<open>
  The locks and writes on wallet rows among the events recorded between a state \<open>s\<close> and
  a later state \<open>s'\<close>.
\<close>

fun is_wallet_event :: "Event \<Rightarrow> bool" where
  "is_wallet_event (LockWallet userId currency) = True"
| "is_wallet_event (SaveWallet userId currency) = True"
| "is_wallet_event e = False"

definition wallet_events :: "State \<Rightarrow> State \<Rightarrow> Event list" where
  "wallet_events s s' = filter is_wallet_event (drop (length (trace s)) (trace s'))"

text \<open>No wallet has a negative balance.\<close>

definition balances_nonneg :: "State \<Rightarrow> bool" where
  "balances_nonneg s = (\<forall>k w. wallets s k = Some w \<longrightarrow> 0 \<le> w_balance w)"

text \<open>No rate in the cache or in the rate history is negative.\<close>

definition rates_nonneg :: "State \<Rightarrow> bool" where
  "rates_nonneg s =
     ((\<forall>k r. cache s k = Some r \<longrightarrow> 0 \<le> ri_rate r) \<and> (\<forall>r \<in> set (fx_rates s). 0 \<le> fr_rate r))"

text \<open>The provider quotes no negative rate.\<close>

definition api_nonneg :: "Env \<Rightarrow> bool" where
  "api_nonneg env = (\<forall>base rates c r. api env base = Inr rates \<longrightarrow> rates c = Some r \<longrightarrow> 0 \<le> r)"

text \<open>
  An operation with no negative amount to add: the funded, credited or converted amount
  is not negative, and a conversion meets a provider that quotes no negative rate. A
  debit may carry any amount.
\<close>

fun amounts_nonneg :: "Operation \<Rightarrow> bool" where
  "amounts_nonneg (Fund userId dto) = (0 \<le> f_amount dto)"
| "amounts_nonneg (Credit userId currency amount) = (0 \<le> amount)"
| "amounts_nonneg (Debit userId currency amount) = True"
| "amounts_nonneg (Convert env userId dto) = (0 \<le> c_amount dto \<and> api_nonneg env)"

section \<open>Scenarios\<close>

text \<open>Concrete states and environments on which the theorems below are instantiated.\<close>

definition empty_state :: State where
  "empty_state =
     \<lparr>wallets = Map.empty, transactions = Map.empty, fx_rates = [], cache = Map.empty, trace = []\<rparr>"

text \<open>
  A provider that quotes NGN to USD at 0.00065 and USD to NGN at 1538.46, and is
  unreachable for other bases.
\<close>

definition provider_env :: Env where
  "provider_env =
     \<lparr>now = 1700000000000,
      api = (\<lambda>base. if base = NGN then Inr [USD \<mapsto> 65 / 100000]
                    else if base = USD then Inr [NGN \<mapsto> 153846 / 100]
                    else Inl ''timeout''),
      cache_set_ok = True, rate_save_ok = True, rate_read_ok = True\<rparr>"

text \<open>The quote \<open>fetchFromApi\<close> builds from that provider's answer.\<close>

definition provider_rate :: FxRateInfo where
  "provider_rate =
     \<lparr>ri_fromCurrency = NGN, ri_toCurrency = USD, ri_rate = 65 / 100000,
      ri_timestamp = 1700000000000, ri_ageSeconds = 0, ri_source = ''exchangerate-api'',
      ri_warning = None\<rparr>"

text \<open>An unreachable provider, at clock time \<open>t\<close>.\<close>

definition outage_env :: "int \<Rightarrow> Env" where
  "outage_env t =
     \<lparr>now = t, api = (\<lambda>base. Inl ''timeout''),
      cache_set_ok = True, rate_save_ok = True, rate_read_ok = True\<rparr>"

text \<open>A rate history with one NGN to USD entry, fetched at time 0.\<close>

definition history_entry :: FxRate where
  "history_entry =
     \<lparr>fr_fromCurrency = NGN, fr_toCurrency = USD, fr_rate = 65 / 100000,
      fr_source = Some ''exchangerate-api'', fr_fetchedAt = 0\<rparr>"

definition history_state :: State where
  "history_state = empty_state\<lparr>fx_rates := [history_entry]\<rparr>"

text \<open>The state after \<open>fund(U1, NGN, 50000.00, "ref-1")\<close> on the empty database.\<close>

definition funded_state :: State where
  "funded_state =
     snd (fundWallet ''U1'' \<lparr>f_currency = NGN, f_amount = 50000, f_reference = ''ref-1''\<rparr>
            empty_state)"

text \<open>
  Conversion requests of user U1: 10000.00 NGN to USD, 0.015 NGN to USD, 0.01 NGN to USD,
  and 10.00 USD to NGN. Each amount passes the request validation (\<^verbatim>\<open>@IsNumber() @Min(0.01)\<close>).
\<close>

definition convert_10000 :: ConvertCurrencyDto where
  "convert_10000 =
     \<lparr>c_fromCurrency = NGN, c_toCurrency = USD, c_amount = 10000, c_reference = ''ref-2''\<rparr>"

definition convert_fine :: ConvertCurrencyDto where
  "convert_fine =
     \<lparr>c_fromCurrency = NGN, c_toCurrency = USD, c_amount = 15 / 1000, c_reference = ''ref-3''\<rparr>"

definition convert_cent :: ConvertCurrencyDto where
  "convert_cent =
     \<lparr>c_fromCurrency = NGN, c_toCurrency = USD, c_amount = 1 / 100, c_reference = ''ref-4''\<rparr>"

definition convert_back :: ConvertCurrencyDto where
  "convert_back =
     \<lparr>c_fromCurrency = USD, c_toCurrency = NGN, c_amount = 10, c_reference = ''ref-5''\<rparr>"

text \<open>The quote for the opposite direction.\<close>

definition provider_rate_usd :: FxRateInfo where
  "provider_rate_usd =
     \<lparr>ri_fromCurrency = USD, ri_toCurrency = NGN, ri_rate = 153846 / 100,
      ri_timestamp = 1700000000000, ri_ageSeconds = 0, ri_source = ''exchangerate-api'',
      ri_warning = None\<rparr>"

text \<open>A state in which user U1 holds the given USD balance and nothing else.\<close>

definition usd_state :: "rat \<Rightarrow> State" where
  "usd_state b =
     empty_state\<lparr>wallets := [(''U1'', USD) \<mapsto>
       \<lparr>w_userId = ''U1'', w_currency = USD, w_balance = b, w_lockedBalance = 0\<rparr>]\<rparr>"

text \<open>A state in which user U1 holds the given NGN balance and nothing else.\<close>

definition ngn_state :: "rat \<Rightarrow> State" where
  "ngn_state b =
     empty_state\<lparr>wallets := [(''U1'', NGN) \<mapsto>
       \<lparr>w_userId = ''U1'', w_currency = NGN, w_balance = b, w_lockedBalance = 0\<rparr>]\<rparr>"

section \<open>Facts about rounding\<close>

lemma floor_rat_numeral [simp]:
  "\<lfloor>(numeral a :: rat) / numeral b\<rfloor> = numeral a div numeral b"
  by (metis floor_divide_of_int_eq of_int_numeral)

lemma floor_rat_neg_numeral [simp]:
  "\<lfloor>- ((numeral a :: rat) / numeral b)\<rfloor> = - numeral a div numeral b"
  by (metis floor_divide_of_int_eq minus_divide_left of_int_neg_numeral of_int_numeral)

lemma floor_rat_one_numeral [simp]:
  "\<lfloor>(1 :: rat) / numeral b\<rfloor> = 1 div numeral b"
  by (metis floor_divide_of_int_eq of_int_1 of_int_numeral)

lemma round_half_up_of_int [simp]: "round_half_up (of_int k) = k"
proof (cases "0 \<le> k")
  case True
  have "\<lfloor>(of_int k :: rat) + 1 / 2\<rfloor> = k" by linarith
  with True show ?thesis by (simp add: round_half_up_def)
next
  case False
  have "\<lfloor>- (of_int k :: rat) + 1 / 2\<rfloor> = - k" by linarith
  with False show ?thesis by (simp add: round_half_up_def)
qed

lemma round_half_up_numeral [simp]: "round_half_up (numeral n) = numeral n"
  using round_half_up_of_int [of "numeral n"] by simp

lemma round_half_up_0 [simp]: "round_half_up 0 = 0"
  using round_half_up_of_int [of 0] by simp

lemma round_half_up_1 [simp]: "round_half_up 1 = 1"
  using round_half_up_of_int [of 1] by simp

lemma fits_iff: "fits dp x \<longleftrightarrow> (\<exists>k. x = of_int k / 10 ^ dp)"
proof
  assume "fits dp x"
  then obtain n where "x * 10 ^ dp = of_int n" by (auto simp: fits_def)
  then have "x = of_int n / 10 ^ dp" by (simp add: field_simps)
  then show "\<exists>k. x = of_int k / 10 ^ dp" ..
next
  assume "\<exists>k. x = of_int k / 10 ^ dp"
  then obtain k where "x = of_int k / 10 ^ dp" ..
  then show "fits dp x" by (simp add: fits_def)
qed

lemma toFixed_fits: "fits dp x \<Longrightarrow> toFixed dp x = x"
  by (auto simp: fits_iff toFixed_def)

lemma fits_toFixed [simp]: "fits dp (toFixed dp x)"
  by (auto simp: fits_iff toFixed_def)

lemma fits_0 [simp]: "fits dp 0"
  by (simp add: fits_def)

lemma fits_add: "fits dp x \<Longrightarrow> fits dp y \<Longrightarrow> fits dp (x + y)"
proof -
  assume "fits dp x" "fits dp y"
  then obtain k l where "x = of_int k / 10 ^ dp" "y = of_int l / 10 ^ dp"
    by (auto simp: fits_iff)
  then have "x + y = of_int (k + l) / 10 ^ dp" by (simp add: add_divide_distrib)
  then show ?thesis unfolding fits_iff ..
qed

lemma fits_diff: "fits dp x \<Longrightarrow> fits dp y \<Longrightarrow> fits dp (x - y)"
proof -
  assume "fits dp x" "fits dp y"
  then obtain k l where "x = of_int k / 10 ^ dp" "y = of_int l / 10 ^ dp"
    by (auto simp: fits_iff)
  then have "x - y = of_int (k - l) / 10 ^ dp" by (simp add: diff_divide_distrib)
  then show ?thesis unfolding fits_iff ..
qed

lemma round_half_up_nonneg: "0 \<le> x \<Longrightarrow> 0 \<le> round_half_up x"
  by (simp add: round_half_up_def)

lemma toFixed_nonneg: "0 \<le> x \<Longrightarrow> 0 \<le> toFixed dp x"
  by (simp add: toFixed_def round_half_up_nonneg)

lemma show_nat_0: "show_nat 0 = ''0''"
  by code_simp

lemma show_nat_1: "show_nat (Suc 0) = ''1''"
  by code_simp

lemma show_nat_nonempty: "show_nat n \<noteq> []"
  by (subst show_nat.simps) simp

lemma stale_warning_nonempty: "stale_warning a \<noteq> []"
  by (simp add: stale_warning_def)

lemma replicate_5: "replicate 5 x = [x, x, x, x, x]"
  by (simp add: eval_nat_numeral)

lemma toFixed_idem [simp]: "toFixed dp (toFixed dp x) = toFixed dp x"
  by (simp add: toFixed_fits)

lemma toFixed_0 [simp]: "toFixed dp 0 = 0"
  by (simp add: toFixed_def)

lemma fits_mono: "fits d x \<Longrightarrow> d \<le> d' \<Longrightarrow> fits d' x"
proof -
  assume f: "fits d x" and le: "d \<le> d'"
  from f obtain k where k: "x = of_int k / 10 ^ d" by (auto simp: fits_iff)
  define r where "r = d' - d"
  have d': "d' = d + r" using le by (simp add: r_def)
  have "x = of_int (k * 10 ^ r) / 10 ^ d'"
    by (simp add: k d' power_add)
  then show ?thesis unfolding fits_iff ..
qed

section \<open>Facts about significant digits\<close>

lemma digits_pos: "0 < digits n"
  by (subst digits.simps) simp

lemma digits_bounds: "0 < n \<Longrightarrow> 10 ^ (digits n - 1) \<le> n \<and> n < 10 ^ digits n"
proof (induction n rule: digits.induct)
  case (1 n)
  show ?case
  proof (cases "n < 10")
    case True
    with "1.prems" show ?thesis by (subst (1 2) digits.simps) simp
  next
    case False
    then have pos: "0 < n div 10" by simp
    from "1.IH" [OF False pos]
    have lo: "10 ^ (digits (n div 10) - 1) \<le> n div 10" and hi: "n div 10 < 10 ^ digits (n div 10)"
      by simp_all
    have d: "digits n = Suc (digits (n div 10))"
      using False by (subst digits.simps) simp
    have dpos: "0 < digits (n div 10)"
      by (rule digits_pos)
    have "10 ^ (digits n - 1) = 10 * 10 ^ (digits (n div 10) - 1)"
      using dpos by (simp add: d power_Suc [symmetric] del: power_Suc)
    also have "\<dots> \<le> 10 * (n div 10)" using lo by simp
    also have "\<dots> \<le> n" by simp
    finally have a: "10 ^ (digits n - 1) \<le> n" .
    have "n < 10 * (n div 10) + 10" by presburger
    also have "\<dots> \<le> 10 * 10 ^ digits (n div 10)" using hi by simp
    finally have b: "n < 10 ^ digits n" by (simp add: d)
    from a b show ?thesis ..
  qed
qed

lemma exponent_bounds:
  assumes "x \<noteq> 0"
  shows "10 powi exponent x \<le> \<bar>x\<bar>" and "\<bar>x\<bar> < 10 powi (exponent x + 1)"
proof -
  have "10 powi exponent x \<le> \<bar>x\<bar> \<and> \<bar>x\<bar> < 10 powi (exponent x + 1)"
  proof (cases "1 \<le> \<bar>x\<bar>")
    case True
    define n where "n = \<lfloor>\<bar>x\<bar>\<rfloor>"
    have npos: "0 < n" using True by (simp add: n_def)
    note b = digits_bounds [OF npos]
    have e: "exponent x = int (digits n) - 1"
      using True by (simp add: exponent_def n_def)
    have e': "exponent x = int (digits n - 1)"
      using digits_pos [of n] by (simp add: e)
    have "(10::rat) powi exponent x = of_int (10 ^ (digits n - 1))"
      by (simp add: e')
    also have "\<dots> \<le> of_int n" using b by (simp only: of_int_le_iff)
    also have "\<dots> \<le> \<bar>x\<bar>" by (simp add: n_def)
    finally have lo: "10 powi exponent x \<le> \<bar>x\<bar>" .
    have "\<bar>x\<bar> < of_int (n + 1)" unfolding n_def by linarith
    also have "\<dots> \<le> of_int (10 ^ digits n)"
      using b by (simp only: of_int_le_iff) simp
    also have "\<dots> = (10::rat) powi (exponent x + 1)"
      by (simp add: e)
    finally have hi: "\<bar>x\<bar> < 10 powi (exponent x + 1)" .
    from lo hi show ?thesis ..
  next
    case False
    define y where "y = 1 / \<bar>x\<bar>"
    define c where "c = \<lceil>y\<rceil> - 1"
    have xpos: "0 < \<bar>x\<bar>" using assms by simp
    have y1: "1 < y" using False xpos by (simp add: y_def)
    have cpos: "0 < c" using y1 by (simp add: c_def)
    note b = digits_bounds [OF cpos]
    have e: "exponent x = - int (digits c)"
      using False by (simp add: exponent_def c_def y_def)
    have ylo: "of_int c < y" by (simp add: c_def) linarith
    have yhi: "y \<le> of_int (c + 1)" by (simp add: c_def)
    have "y \<le> of_int (c + 1)" by (rule yhi)
    also have "\<dots> \<le> of_int (10 ^ digits c)"
      using b by (simp only: of_int_le_iff) simp
    finally have "y \<le> 10 ^ digits c" by simp
    then have "1 / 10 ^ digits c \<le> \<bar>x\<bar>"
      using xpos by (simp add: y_def field_simps)
    then have lo: "10 powi exponent x \<le> \<bar>x\<bar>"
      by (simp add: e power_int_minus_divide)
    have "(of_int (10 ^ (digits c - 1)) :: rat) \<le> of_int c"
      using b by (simp only: of_int_le_iff)
    also have "\<dots> < y" by (rule ylo)
    finally have "10 ^ (digits c - 1) < y" by simp
    then have "\<bar>x\<bar> < 1 / 10 ^ (digits c - 1)"
      using xpos by (simp add: y_def field_simps)
    moreover have "exponent x + 1 = - int (digits c - 1)"
      using digits_pos [of c] by (simp add: e)
    ultimately have hi: "\<bar>x\<bar> < 10 powi (exponent x + 1)"
      by (simp add: power_int_minus_divide)
    from lo hi show ?thesis ..
  qed
  then show "10 powi exponent x \<le> \<bar>x\<bar>" and "\<bar>x\<bar> < 10 powi (exponent x + 1)"
    by simp_all
qed

lemma powi_less_imp_less:
  assumes "(10::rat) powi a < 10 powi b"
  shows "a < b"
proof (rule ccontr)
  assume "\<not> a < b"
  then have "b \<le> a" by simp
  then have "(10::rat) powi b \<le> 10 powi a"
    by (rule power_int_increasing) simp
  with assms show False by simp
qed

lemma powi_le_abs_nonzero:
  assumes "(10::rat) powi e \<le> \<bar>x\<bar>"
  shows "x \<noteq> 0"
proof
  assume z: "x = 0"
  have "(0::rat) < 10 powi e" by simp
  also have "\<dots> \<le> \<bar>x\<bar>" by (rule assms)
  finally show False using z by simp
qed

lemma exponent_unique:
  assumes lo: "10 powi e \<le> \<bar>x\<bar>" and hi: "\<bar>x\<bar> < 10 powi (e + 1)"
  shows "exponent x = e"
proof -
  note nz = powi_le_abs_nonzero [OF lo]
  from exponent_bounds(1) [OF nz] hi
  have "(10::rat) powi exponent x < 10 powi (e + 1)" by (rule le_less_trans)
  then have a: "exponent x < e + 1"
    by (rule powi_less_imp_less)
  from lo exponent_bounds(2) [OF nz]
  have "(10::rat) powi e < 10 powi (exponent x + 1)" by (rule le_less_trans)
  then have b: "e < exponent x + 1"
    by (rule powi_less_imp_less)
  from a b show ?thesis by simp
qed

lemma toSignificantDigits_at:
  assumes "10 powi e \<le> \<bar>x\<bar>" and "\<bar>x\<bar> < 10 powi (e + 1)"
  shows "toSignificantDigits sd x =
           of_int (round_half_up (x * 10 powi (int sd - 1 - e))) / 10 powi (int sd - 1 - e)"
proof -
  note nz = powi_le_abs_nonzero [OF assms(1)]
  show ?thesis
    by (simp add: toSignificantDigits_def nz exponent_unique [OF assms])
qed

lemma toSignificantDigits_20_at:
  assumes "10 ^ e \<le> \<bar>x\<bar>" and "\<bar>x\<bar> < 10 ^ Suc e" and "e \<le> 19"
  shows "toSignificantDigits 20 x = of_int (round_half_up (x * 10 ^ (19 - e))) / 10 ^ (19 - e)"
proof -
  have a: "10 powi int e \<le> \<bar>x\<bar>" using assms(1) by simp
  have "int e + 1 = int (Suc e)" by simp
  then have b: "\<bar>x\<bar> < 10 powi (int e + 1)"
    using assms(2) by (simp only: power_int_of_nat)
  have c: "int 20 - 1 - int e = int (19 - e)" using assms(3) by simp
  show ?thesis
    by (simp only: toSignificantDigits_at [OF a b] c power_int_of_nat)
qed

lemma toSignificantDigits_nonneg: "0 \<le> x \<Longrightarrow> 0 \<le> toSignificantDigits sd x"
  by (simp add: toSignificantDigits_def round_half_up_nonneg)

lemma toSignificantDigits_exact:
  assumes f: "fits d x" and b: "\<bar>x\<bar> < 10 ^ m" and n: "d + m \<le> sd"
  shows "toSignificantDigits sd x = x"
proof (cases "x = 0")
  case True
  then show ?thesis by (simp add: toSignificantDigits_def)
next
  case False
  from exponent_bounds(1) [OF False] b
  have "(10::rat) powi exponent x < 10 powi int m" by simp
  then have "exponent x < int m"
    by (rule powi_less_imp_less)
  then have p: "int d \<le> int sd - 1 - exponent x" using n by linarith
  define q where "q = nat (int sd - 1 - exponent x)"
  have q: "int sd - 1 - exponent x = int q" and dq: "d \<le> q"
    using p by (simp_all add: q_def)
  from f obtain k where k: "x = of_int k / 10 ^ d" by (auto simp: fits_iff)
  define r where "r = q - d"
  have qr: "q = d + r" using dq by (simp add: r_def)
  have "x * 10 ^ q = of_int k * 10 ^ r"
    by (simp add: k qr power_add)
  also have "\<dots> = of_int (k * 10 ^ r)" by simp
  finally have "round_half_up (x * 10 ^ q) = k * 10 ^ r"
    by (simp only: round_half_up_of_int)
  moreover have "of_int (k * 10 ^ r) / 10 ^ q = x"
    by (simp add: k qr power_add)
  ultimately show ?thesis
    using False by (simp add: toSignificantDigits_def q)
qed

lemma plus_decimal_nonneg: "0 \<le> x \<Longrightarrow> 0 \<le> y \<Longrightarrow> 0 \<le> plus_decimal x y"
  by (simp add: plus_decimal_def toSignificantDigits_nonneg)

lemma minus_decimal_nonneg: "y \<le> x \<Longrightarrow> 0 \<le> minus_decimal x y"
  by (simp add: minus_decimal_def toSignificantDigits_nonneg)

lemma times_decimal_nonneg: "0 \<le> x \<Longrightarrow> 0 \<le> y \<Longrightarrow> 0 \<le> times_decimal x y"
  by (simp add: times_decimal_def toSignificantDigits_nonneg)

lemma convertAmount_nonneg: "0 \<le> amount \<Longrightarrow> 0 \<le> rate \<Longrightarrow> 0 \<le> convertAmount amount rate"
  by (simp add: convertAmount_def toFixed_nonneg times_decimal_nonneg)

text \<open>
  On amounts of money (at most two fractional digits) of at most 18 integer digits, sum
  and difference need no more than 20 significant digits: nothing is rounded.
\<close>

lemma money_plus:
  assumes "fits 2 x" and "fits 2 y" and "\<bar>x + y\<bar> < 10 ^ 18"
  shows "toFixed 2 (plus_decimal x y) = x + y"
proof -
  have f: "fits 2 (x + y)" by (rule fits_add [OF assms(1,2)])
  have "plus_decimal x y = x + y"
    unfolding plus_decimal_def by (rule toSignificantDigits_exact [OF f assms(3)]) simp
  then show ?thesis by (simp add: toFixed_fits f)
qed

lemma money_minus:
  assumes "fits 2 x" and "fits 2 y" and "\<bar>x - y\<bar> < 10 ^ 18"
  shows "toFixed 2 (minus_decimal x y) = x - y"
proof -
  have f: "fits 2 (x - y)" by (rule fits_diff [OF assms(1,2)])
  have "minus_decimal x y = x - y"
    unfolding minus_decimal_def by (rule toSignificantDigits_exact [OF f assms(3)]) simp
  then show ?thesis by (simp add: toFixed_fits f)
qed

lemma times_decimal_exact:
  "fits d (x * y) \<Longrightarrow> \<bar>x * y\<bar> < 10 ^ m \<Longrightarrow> d + m \<le> 20 \<Longrightarrow> times_decimal x y = x * y"
  unfolding times_decimal_def by (rule toSignificantDigits_exact)

lemma plus_decimal_0 [simp]: "fits 2 x \<Longrightarrow> \<bar>x\<bar> < 10 ^ 18 \<Longrightarrow> toFixed 2 (plus_decimal x 0) = x"
  using money_plus [of x 0] by simp

section \<open>Facts about the storage operations\<close>

lemma emit_simps [simp]:
  "wallets (emit e s) = wallets s"
  "transactions (emit e s) = transactions s"
  "fx_rates (emit e s) = fx_rates s"
  "cache (emit e s) = cache s"
  "trace (emit e s) = trace s @ [e]"
  by (simp_all add: emit_def)

lemma rollbackTransaction_simps [simp]:
  "wallets (rollbackTransaction s0 s) = wallets s0"
  "transactions (rollbackTransaction s0 s) = transactions s0"
  "fx_rates (rollbackTransaction s0 s) = fx_rates s"
  "cache (rollbackTransaction s0 s) = cache s"
  "trace (rollbackTransaction s0 s) = trace s @ [RollbackTransaction]"
  by (simp_all add: rollbackTransaction_def)

lemma find_or_create_emit [simp]: "find_or_create (emit e s) u c = find_or_create s u c"
  by (simp add: find_or_create_def)

lemma find_or_create_trace [simp]:
  "find_or_create (s\<lparr>trace := evs\<rparr>) u c = find_or_create s u c"
  by (simp add: find_or_create_def)

lemma find_or_create_transactions [simp]:
  "find_or_create (s\<lparr>transactions := ts\<rparr>) u c = find_or_create s u c"
  by (simp add: find_or_create_def)

lemma find_or_create_same: "wallets s' = wallets s \<Longrightarrow> find_or_create s' u c = find_or_create s u c"
  by (simp add: find_or_create_def)

lemma numeric_column_15_2:
  "numeric_column 15 2 x =
     (if \<bar>toFixed 2 x\<bar> < 10 ^ 13 then Inr (toFixed 2 x)
      else Inl (QueryFailedError ''numeric field overflow''))"
  by (simp add: numeric_column_def)

lemma numeric_column_10_6:
  "numeric_column 10 6 x =
     (if \<bar>toFixed 6 x\<bar> < 10 ^ 4 then Inr (toFixed 6 x)
      else Inl (QueryFailedError ''numeric field overflow''))"
  by (simp add: numeric_column_def)

lemma transaction_row_status:
  "transaction_row t = Inr row \<Longrightarrow> transaction_row (t\<lparr>t_status := st\<rparr>) = Inr (row\<lparr>t_status := st\<rparr>)"
  by (auto simp: transaction_row_def split: sum.splits)

lemma transaction_row_fields:
  assumes "transaction_row t = Inr row"
  shows "t_reference row = t_reference t" and "t_status row = t_status t"
    and "t_userId row = t_userId t" and "t_type row = t_type t"
  using assms by (auto simp: transaction_row_def split: sum.splits)

lemma saveWallet_eq:
  "saveWallet u c w s =
     (if \<bar>toFixed 2 (w_balance w)\<bar> < 10 ^ 13
      then (Inr (), (emit (SaveWallet u c) s)
                      \<lparr>wallets := (wallets s)((u, c) \<mapsto> w\<lparr>w_balance := toFixed 2 (w_balance w)\<rparr>)\<rparr>)
      else (Inl (QueryFailedError ''numeric field overflow''), emit (SaveWallet u c) s))"
  by (simp add: saveWallet_def Let_def numeric_column_15_2)

lemma saveWallet_frame [simp]:
  "transactions (snd (saveWallet u c w s)) = transactions s"
  "fx_rates (snd (saveWallet u c w s)) = fx_rates s"
  "cache (snd (saveWallet u c w s)) = cache s"
  "trace (snd (saveWallet u c w s)) = trace s @ [SaveWallet u c]"
  by (simp_all add: saveWallet_eq)

lemma insertTransaction_ok:
  "transaction_row t = Inr row \<Longrightarrow> transactions s (t_reference t) = None \<Longrightarrow>
   insertTransaction t s =
     (Inr (), (emit (SaveTransaction (t_reference t) (t_status t)) s)
                \<lparr>transactions := (transactions s)(t_reference t \<mapsto> row)\<rparr>)"
  by (simp add: insertTransaction_def Let_def)

lemma insertTransaction_frame [simp]:
  "wallets (snd (insertTransaction t s)) = wallets s"
  "fx_rates (snd (insertTransaction t s)) = fx_rates s"
  "cache (snd (insertTransaction t s)) = cache s"
  "trace (snd (insertTransaction t s)) = trace s @ [SaveTransaction (t_reference t) (t_status t)]"
  by (simp_all add: insertTransaction_def Let_def split: sum.splits option.splits)

lemma updateTransaction_ok:
  "transaction_row t = Inr row \<Longrightarrow>
   updateTransaction r t s =
     (Inr (), (emit (SaveTransaction r (t_status t)) s)
                \<lparr>transactions := (transactions s)(r \<mapsto> row)\<rparr>)"
  by (simp add: updateTransaction_def Let_def)

lemma updateTransaction_frame [simp]:
  "wallets (snd (updateTransaction r t s)) = wallets s"
  "fx_rates (snd (updateTransaction r t s)) = fx_rates s"
  "cache (snd (updateTransaction r t s)) = cache s"
  "trace (snd (updateTransaction r t s)) = trace s @ [SaveTransaction r (t_status t)]"
  by (simp_all add: updateTransaction_def Let_def split: sum.splits)

lemma deductBalance_missing:
  "wallets s (u, c) = None \<Longrightarrow>
   deductBalance u c a s =
     (Inl (NotFoundException (''Wallet not found for currency '' @ currency_code c)),
      emit (LockWallet u c) s)"
  by (simp add: deductBalance_def Let_def)

lemma deductBalance_insufficient:
  "wallets s (u, c) = Some w \<Longrightarrow> w_balance w < a \<Longrightarrow>
   deductBalance u c a s =
     (Inl (BadRequestException (''Insufficient balance in '' @ currency_code c @ '' wallet'')),
      emit (LockWallet u c) s)"
  by (simp add: deductBalance_def Let_def)

lemma deductBalance_ok:
  "wallets s (u, c) = Some w \<Longrightarrow> \<not> w_balance w < a \<Longrightarrow>
   \<bar>toFixed 2 (minus_decimal (w_balance w) a)\<bar> < 10 ^ 13 \<Longrightarrow>
   deductBalance u c a s =
     (Inr (w\<lparr>w_balance := toFixed 2 (minus_decimal (w_balance w) a)\<rparr>),
      s\<lparr>wallets := (wallets s)((u, c) \<mapsto> w\<lparr>w_balance := toFixed 2 (minus_decimal (w_balance w) a)\<rparr>),
        trace := trace s @ [LockWallet u c, SaveWallet u c]\<rparr>)"
  by (simp add: deductBalance_def Let_def saveWallet_eq emit_def)

lemma deductBalance_overflow:
  "wallets s (u, c) = Some w \<Longrightarrow> \<not> w_balance w < a \<Longrightarrow>
   \<not> \<bar>toFixed 2 (minus_decimal (w_balance w) a)\<bar> < 10 ^ 13 \<Longrightarrow>
   deductBalance u c a s =
     (Inl (QueryFailedError ''numeric field overflow''),
      emit (SaveWallet u c) (emit (LockWallet u c) s))"
  by (simp add: deductBalance_def Let_def saveWallet_eq)

lemma deductBalance_frame [simp]:
  "transactions (snd (deductBalance u c a s)) = transactions s"
  "fx_rates (snd (deductBalance u c a s)) = fx_rates s"
  "cache (snd (deductBalance u c a s)) = cache s"
  by (simp_all add: deductBalance_def Let_def saveWallet_eq split: option.splits)

lemma deductBalance_Inr_trace:
  "fst (deductBalance u c a s) = Inr w \<Longrightarrow>
   trace (snd (deductBalance u c a s)) = trace s @ [LockWallet u c, SaveWallet u c]"
  by (auto simp: deductBalance_def Let_def saveWallet_eq split: option.splits if_splits)

lemma addBalance_ok:
  "\<bar>toFixed 2 (plus_decimal (w_balance (find_or_create s u c)) a)\<bar> < 10 ^ 13 \<Longrightarrow>
   addBalance u c a s =
     (Inr ((find_or_create s u c)
             \<lparr>w_balance := toFixed 2 (plus_decimal (w_balance (find_or_create s u c)) a)\<rparr>),
      s\<lparr>wallets := (wallets s)((u, c) \<mapsto> (find_or_create s u c)
             \<lparr>w_balance := toFixed 2 (plus_decimal (w_balance (find_or_create s u c)) a)\<rparr>),
        trace := trace s @ [LockWallet u c, SaveWallet u c]\<rparr>)"
  by (simp add: addBalance_def Let_def saveWallet_eq emit_def)

lemma addBalance_overflow:
  "\<not> \<bar>toFixed 2 (plus_decimal (w_balance (find_or_create s u c)) a)\<bar> < 10 ^ 13 \<Longrightarrow>
   addBalance u c a s =
     (Inl (QueryFailedError ''numeric field overflow''),
      emit (SaveWallet u c) (emit (LockWallet u c) s))"
  by (simp add: addBalance_def Let_def saveWallet_eq)

lemma addBalance_frame [simp]:
  "transactions (snd (addBalance u c a s)) = transactions s"
  "fx_rates (snd (addBalance u c a s)) = fx_rates s"
  "cache (snd (addBalance u c a s)) = cache s"
  "trace (snd (addBalance u c a s)) = trace s @ [LockWallet u c, SaveWallet u c]"
  by (simp_all add: addBalance_def Let_def saveWallet_eq)

lemma saveRateToDatabase_frame [simp]:
  "wallets (saveRateToDatabase env r s) = wallets s"
  "transactions (saveRateToDatabase env r s) = transactions s"
  "cache (saveRateToDatabase env r s) = cache s"
  by (simp_all add: saveRateToDatabase_def Let_def)

lemma rate_fallback_frame:
  "wallets (snd (rate_fallback env f t s)) = wallets s"
  "transactions (snd (rate_fallback env f t s)) = transactions s"
  "cache (snd (rate_fallback env f t s)) = cache s"
  "fx_rates (snd (rate_fallback env f t s)) = fx_rates s"
  by (simp_all add: rate_fallback_def Let_def split: option.splits)

lemma getRate_frame:
  "wallets (snd (getRate env f t s)) = wallets s"
  "transactions (snd (getRate env f t s)) = transactions s"
  by (simp_all add: getRate_def Let_def rate_fallback_frame split: option.splits sum.splits)

lemma getRate_frame':
  assumes "getRate env f t s = (r, s')"
  shows "wallets s' = wallets s" and "transactions s' = transactions s"
  using getRate_frame [of env f t s] assms by simp_all

lemma mark_failed_absent:
  "transactions s r = None \<Longrightarrow> mark_failed r e s = emit (FindTransaction r) s"
  by (simp add: mark_failed_def Let_def)

lemma mark_failed_frame [simp]:
  "wallets (mark_failed r e s) = wallets s"
  "cache (mark_failed r e s) = cache s"
  "fx_rates (mark_failed r e s) = fx_rates s"
  by (simp_all add: mark_failed_def Let_def split: option.splits)

section \<open>Facts about the units of work\<close>

lemma convert_transaction_simps [simp]:
  "t_reference (convert_transaction u dto ri ca) = c_reference dto"
  "t_status (convert_transaction u dto ri ca) = PENDING"
  "t_fromAmount (convert_transaction u dto ri ca) = Some (c_amount dto)"
  "t_toAmount (convert_transaction u dto ri ca) = Some ca"
  "t_fxRate (convert_transaction u dto ri ca) = Some (ri_rate ri)"
  by (simp_all add: convert_transaction_def)

lemma fund_transaction_simps [simp]:
  "t_reference (fund_transaction u dto) = f_reference dto"
  "t_status (fund_transaction u dto) = PENDING"
  "t_fromAmount (fund_transaction u dto) = None"
  "t_toAmount (fund_transaction u dto) = Some (f_amount dto)"
  "t_fxRate (fund_transaction u dto) = None"
  by (simp_all add: fund_transaction_def)

text \<open>The rows the journal stores for the two kinds of transaction.\<close>

lemma convert_transaction_row:
  assumes "\<bar>toFixed 2 (c_amount dto)\<bar> < 10 ^ 13" and "\<bar>toFixed 2 ca\<bar> < 10 ^ 13"
    and "\<bar>toFixed 6 (ri_rate ri)\<bar> < 10 ^ 4"
  shows "transaction_row (convert_transaction u dto ri ca) =
           Inr ((convert_transaction u dto ri ca)
                  \<lparr>t_fromAmount := Some (toFixed 2 (c_amount dto)),
                   t_toAmount := Some (toFixed 2 ca),
                   t_fxRate := Some (toFixed 6 (ri_rate ri))\<rparr>)"
  using assms
  by (simp add: transaction_row_def nullable_column_def numeric_column_15_2 numeric_column_10_6)

lemma fund_transaction_row:
  assumes "\<bar>toFixed 2 (f_amount dto)\<bar> < 10 ^ 13"
  shows "transaction_row (fund_transaction u dto) =
           Inr ((fund_transaction u dto)\<lparr>t_toAmount := Some (toFixed 2 (f_amount dto))\<rparr>)"
  using assms
  by (simp add: transaction_row_def nullable_column_def numeric_column_15_2 fund_transaction_def)

lemma convert_unit_of_work_steps:
  assumes "insertTransaction (convert_transaction u dto ri ca) s = (r1, s1)"
    and "deductBalance u (c_fromCurrency dto) (c_amount dto) s1 = (r2, s2)"
    and "addBalance u (c_toCurrency dto) ca s2 = (r3, s3)"
    and "updateTransaction (c_reference dto)
           ((convert_transaction u dto ri ca)\<lparr>t_status := COMPLETED\<rparr>) s3 = (r4, s4)"
  shows "convert_unit_of_work u dto ri ca s =
     (case r1 of
        Inl e \<Rightarrow> (Inl e, s1)
      | Inr _ \<Rightarrow>
          (case r2 of
             Inl e \<Rightarrow> (Inl e, s2)
           | Inr _ \<Rightarrow>
               (case r3 of
                  Inl e \<Rightarrow> (Inl e, s3)
                | Inr _ \<Rightarrow>
                    (case r4 of
                       Inl e \<Rightarrow> (Inl e, s4)
                     | Inr _ \<Rightarrow>
                         (Inr ((convert_transaction u dto ri ca)\<lparr>t_status := COMPLETED\<rparr>),
                          emit CommitTransaction s4)))))"
  using assms by (simp add: convert_unit_of_work_def Let_def split: sum.splits)

lemma fund_unit_of_work_steps:
  assumes "insertTransaction (fund_transaction u dto) s = (r1, s1)"
    and "saveWallet u (f_currency dto)
           ((find_or_create s1 u (f_currency dto))
              \<lparr>w_balance := toFixed 2 (plus_decimal (w_balance (find_or_create s1 u (f_currency dto)))
                                         (f_amount dto))\<rparr>)
           (emit (LockWallet u (f_currency dto)) s1) = (r2, s2)"
    and "updateTransaction (f_reference dto)
           ((fund_transaction u dto)\<lparr>t_status := COMPLETED\<rparr>) s2 = (r3, s3)"
  shows "fund_unit_of_work u dto s =
     (case r1 of
        Inl e \<Rightarrow> (Inl e, s1)
      | Inr _ \<Rightarrow>
          (case r2 of
             Inl e \<Rightarrow> (Inl e, s2)
           | Inr _ \<Rightarrow>
               (case r3 of
                  Inl e \<Rightarrow> (Inl e, s3)
                | Inr _ \<Rightarrow>
                    (Inr (FundDone ''Wallet funded successfully''
                            ((fund_transaction u dto)\<lparr>t_status := COMPLETED\<rparr>)
                            ((find_or_create s1 u (f_currency dto))
                               \<lparr>w_balance :=
                                  toFixed 2 (plus_decimal
                                    (w_balance (find_or_create s1 u (f_currency dto)))
                                    (f_amount dto))\<rparr>)),
                     emit CommitTransaction s3))))"
  using assms by (simp add: fund_unit_of_work_def Let_def split: sum.splits)

lemma convert_unit_of_work_done:
  assumes row: "transaction_row (convert_transaction u dto ri ca) = Inr row"
    and fresh: "transactions s (c_reference dto) = None"
    and ne: "c_fromCurrency dto \<noteq> c_toCurrency dto"
    and src: "wallets s (u, c_fromCurrency dto) = Some w"
    and enough: "\<not> w_balance w < c_amount dto"
    and srcok: "\<bar>toFixed 2 (minus_decimal (w_balance w) (c_amount dto))\<bar> < 10 ^ 13"
    and dstok: "\<bar>toFixed 2 (plus_decimal (w_balance (find_or_create s u (c_toCurrency dto))) ca)\<bar>
                  < 10 ^ 13"
  shows "convert_unit_of_work u dto ri ca s =
    (Inr ((convert_transaction u dto ri ca)\<lparr>t_status := COMPLETED\<rparr>),
     s\<lparr>wallets := (wallets s)
            ((u, c_fromCurrency dto) \<mapsto>
               w\<lparr>w_balance := toFixed 2 (minus_decimal (w_balance w) (c_amount dto))\<rparr>,
             (u, c_toCurrency dto) \<mapsto> (find_or_create s u (c_toCurrency dto))
                \<lparr>w_balance :=
                   toFixed 2 (plus_decimal (w_balance (find_or_create s u (c_toCurrency dto))) ca)\<rparr>),
        transactions := (transactions s)(c_reference dto \<mapsto> row\<lparr>t_status := COMPLETED\<rparr>),
        trace := trace s @
           [SaveTransaction (c_reference dto) PENDING,
            LockWallet u (c_fromCurrency dto), SaveWallet u (c_fromCurrency dto),
            LockWallet u (c_toCurrency dto), SaveWallet u (c_toCurrency dto),
            SaveTransaction (c_reference dto) COMPLETED, CommitTransaction]\<rparr>)"
proof -
  let ?tx = "convert_transaction u dto ri ca"
  let ?from = "c_fromCurrency dto" and ?to = "c_toCurrency dto"
  let ?w1 = "w\<lparr>w_balance := toFixed 2 (minus_decimal (w_balance w) (c_amount dto))\<rparr>"
  let ?w2 = "(find_or_create s u ?to)
                \<lparr>w_balance := toFixed 2 (plus_decimal (w_balance (find_or_create s u ?to)) ca)\<rparr>"
  define s1 where "s1 = s\<lparr>transactions := (transactions s)(c_reference dto \<mapsto> row),
                          trace := trace s @ [SaveTransaction (c_reference dto) PENDING]\<rparr>"
  define s2 where "s2 = s1\<lparr>wallets := (wallets s1)((u, ?from) \<mapsto> ?w1),
                           trace := trace s1 @ [LockWallet u ?from, SaveWallet u ?from]\<rparr>"
  define s3 where "s3 = s2\<lparr>wallets := (wallets s2)((u, ?to) \<mapsto> ?w2),
                           trace := trace s2 @ [LockWallet u ?to, SaveWallet u ?to]\<rparr>"
  define s4 where "s4 = s3\<lparr>transactions := (transactions s3)
                             (c_reference dto \<mapsto> row\<lparr>t_status := COMPLETED\<rparr>),
                           trace := trace s3 @ [SaveTransaction (c_reference dto) COMPLETED]\<rparr>"
  have i: "insertTransaction ?tx s = (Inr (), s1)"
    using insertTransaction_ok [OF row, of s] fresh by (simp add: s1_def emit_def)
  have "wallets s1 (u, ?from) = Some w" by (simp add: s1_def src)
  from deductBalance_ok [OF this enough srcok]
  have d: "deductBalance u ?from (c_amount dto) s1 = (Inr ?w1, s2)"
    by (simp add: s2_def)
  have fc: "find_or_create s2 u ?to = find_or_create s u ?to"
    using ne by (simp add: find_or_create_def s2_def s1_def)
  from addBalance_ok [of s2 u ?to ca] dstok
  have a: "addBalance u ?to ca s2 = (Inr ?w2, s3)"
    by (simp add: fc s3_def)
  from updateTransaction_ok [OF transaction_row_status [OF row, where st = COMPLETED],
      where r = "c_reference dto" and s = s3]
  have up: "updateTransaction (c_reference dto) (?tx\<lparr>t_status := COMPLETED\<rparr>) s3 = (Inr (), s4)"
    by (simp add: s4_def emit_def)
  show ?thesis
    by (simp add: convert_unit_of_work_steps [OF i d a up] s4_def s3_def s2_def s1_def emit_def)
qed

lemma convert_unit_of_work_insufficient:
  assumes row: "transaction_row (convert_transaction u dto ri ca) = Inr row"
    and fresh: "transactions s (c_reference dto) = None"
    and src: "wallets s (u, c_fromCurrency dto) = Some w"
    and short: "w_balance w < c_amount dto"
  shows "fst (convert_unit_of_work u dto ri ca s) =
           Inl (BadRequestException
                  (''Insufficient balance in '' @ currency_code (c_fromCurrency dto) @ '' wallet''))"
    and "trace (snd (convert_unit_of_work u dto ri ca s)) =
           trace s @ [SaveTransaction (c_reference dto) PENDING, LockWallet u (c_fromCurrency dto)]"
  using fresh src short insertTransaction_ok [OF row, of s]
  by (simp_all add: convert_unit_of_work_def Let_def deductBalance_insufficient)

lemma convert_unit_of_work_trace:
  assumes "fst (convert_unit_of_work u dto ri ca s) = Inr t"
  shows "trace (snd (convert_unit_of_work u dto ri ca s)) =
           trace s @
           [SaveTransaction (c_reference dto) PENDING,
            LockWallet u (c_fromCurrency dto), SaveWallet u (c_fromCurrency dto),
            LockWallet u (c_toCurrency dto), SaveWallet u (c_toCurrency dto),
            SaveTransaction (c_reference dto) COMPLETED, CommitTransaction]"
proof -
  let ?tx = "convert_transaction u dto ri ca"
  obtain r1 s1 where i: "insertTransaction ?tx s = (r1, s1)"
    by (cases "insertTransaction ?tx s")
  obtain r2 s2 where d: "deductBalance u (c_fromCurrency dto) (c_amount dto) s1 = (r2, s2)"
    by (cases "deductBalance u (c_fromCurrency dto) (c_amount dto) s1")
  obtain r3 s3 where a: "addBalance u (c_toCurrency dto) ca s2 = (r3, s3)"
    by (cases "addBalance u (c_toCurrency dto) ca s2")
  obtain r4 s4 where up: "updateTransaction (c_reference dto) (?tx\<lparr>t_status := COMPLETED\<rparr>) s3
      = (r4, s4)"
    by (cases "updateTransaction (c_reference dto) (?tx\<lparr>t_status := COMPLETED\<rparr>) s3")
  note st = convert_unit_of_work_steps [OF i d a up]
  from assms have ok: "(\<exists>x. r1 = Inr x) \<and> (\<exists>x. r2 = Inr x) \<and> (\<exists>x. r3 = Inr x) \<and> (\<exists>x. r4 = Inr x)"
    by (auto simp: st split: sum.splits)
  have t1: "trace s1 = trace s @ [SaveTransaction (c_reference dto) PENDING]"
    using insertTransaction_frame(4) [of ?tx s] i by simp
  have t2: "trace s2 = trace s1 @ [LockWallet u (c_fromCurrency dto), SaveWallet u (c_fromCurrency dto)]"
    using deductBalance_Inr_trace [of u "c_fromCurrency dto" "c_amount dto" s1] d ok by auto
  have t3: "trace s3 = trace s2 @ [LockWallet u (c_toCurrency dto), SaveWallet u (c_toCurrency dto)]"
    using addBalance_frame(4) [of u "c_toCurrency dto" ca s2] a by simp
  have t4: "trace s4 = trace s3 @ [SaveTransaction (c_reference dto) COMPLETED]"
    using updateTransaction_frame(4) [of "c_reference dto" "?tx\<lparr>t_status := COMPLETED\<rparr>" s3] up
    by simp
  from ok show ?thesis
    by (auto simp: st t1 t2 t3 t4)
qed

lemma convert_unit_of_work_frame [simp]:
  "cache (snd (convert_unit_of_work u dto ri ca s)) = cache s"
  "fx_rates (snd (convert_unit_of_work u dto ri ca s)) = fx_rates s"
proof -
  let ?tx = "convert_transaction u dto ri ca"
  obtain r1 s1 where i: "insertTransaction ?tx s = (r1, s1)"
    by (cases "insertTransaction ?tx s")
  obtain r2 s2 where d: "deductBalance u (c_fromCurrency dto) (c_amount dto) s1 = (r2, s2)"
    by (cases "deductBalance u (c_fromCurrency dto) (c_amount dto) s1")
  obtain r3 s3 where a: "addBalance u (c_toCurrency dto) ca s2 = (r3, s3)"
    by (cases "addBalance u (c_toCurrency dto) ca s2")
  obtain r4 s4 where up: "updateTransaction (c_reference dto) (?tx\<lparr>t_status := COMPLETED\<rparr>) s3
      = (r4, s4)"
    by (cases "updateTransaction (c_reference dto) (?tx\<lparr>t_status := COMPLETED\<rparr>) s3")
  note st = convert_unit_of_work_steps [OF i d a up]
  have f1: "cache s1 = cache s" "fx_rates s1 = fx_rates s"
    using insertTransaction_frame(2,3) [of ?tx s] i by simp_all
  have f2: "cache s2 = cache s1" "fx_rates s2 = fx_rates s1"
    using deductBalance_frame(2,3) [of u "c_fromCurrency dto" "c_amount dto" s1] d by simp_all
  have f3: "cache s3 = cache s2" "fx_rates s3 = fx_rates s2"
    using addBalance_frame(2,3) [of u "c_toCurrency dto" ca s2] a by simp_all
  have f4: "cache s4 = cache s3" "fx_rates s4 = fx_rates s3"
    using updateTransaction_frame(2,3) [of "c_reference dto" "?tx\<lparr>t_status := COMPLETED\<rparr>" s3] up
    by simp_all
  show "cache (snd (convert_unit_of_work u dto ri ca s)) = cache s"
    and "fx_rates (snd (convert_unit_of_work u dto ri ca s)) = fx_rates s"
    by (simp_all add: st f1 f2 f3 f4 split: sum.splits)
qed

lemma fund_unit_of_work_frame [simp]:
  "cache (snd (fund_unit_of_work u dto s)) = cache s"
  "fx_rates (snd (fund_unit_of_work u dto s)) = fx_rates s"
proof -
  let ?tx = "fund_transaction u dto"
  obtain r1 s1 where i: "insertTransaction ?tx s = (r1, s1)"
    by (cases "insertTransaction ?tx s")
  let ?w = "(find_or_create s1 u (f_currency dto))
              \<lparr>w_balance := toFixed 2 (plus_decimal (w_balance (find_or_create s1 u (f_currency dto)))
                                         (f_amount dto))\<rparr>"
  obtain r2 s2 where sv: "saveWallet u (f_currency dto) ?w (emit (LockWallet u (f_currency dto)) s1)
      = (r2, s2)"
    by (cases "saveWallet u (f_currency dto) ?w (emit (LockWallet u (f_currency dto)) s1)")
  obtain r3 s3 where up: "updateTransaction (f_reference dto) (?tx\<lparr>t_status := COMPLETED\<rparr>) s2
      = (r3, s3)"
    by (cases "updateTransaction (f_reference dto) (?tx\<lparr>t_status := COMPLETED\<rparr>) s2")
  note st = fund_unit_of_work_steps [OF i sv up]
  have f1: "cache s1 = cache s" "fx_rates s1 = fx_rates s"
    using insertTransaction_frame(2,3) [of ?tx s] i by simp_all
  have f2: "cache s2 = cache s1" "fx_rates s2 = fx_rates s1"
    using saveWallet_frame(2,3) [of u "f_currency dto" ?w "emit (LockWallet u (f_currency dto)) s1"] sv
    by simp_all
  have f3: "cache s3 = cache s2" "fx_rates s3 = fx_rates s2"
    using updateTransaction_frame(2,3) [of "f_reference dto" "?tx\<lparr>t_status := COMPLETED\<rparr>" s2] up
    by simp_all
  show "cache (snd (fund_unit_of_work u dto s)) = cache s"
    and "fx_rates (snd (fund_unit_of_work u dto s)) = fx_rates s"
    by (simp_all add: st f1 f2 f3 split: sum.splits)
qed

lemma convertCurrency_run:
  assumes ne: "c_fromCurrency dto \<noteq> c_toCurrency dto"
    and fresh: "transactions s (c_reference dto) = None"
    and rate: "getRate env (c_fromCurrency dto) (c_toCurrency dto)
                 (emit (FindTransaction (c_reference dto)) s) = (Inr ri, s2)"
  shows "convertCurrency env u dto s =
    (case convert_unit_of_work u dto ri (convertAmount (c_amount dto) (ri_rate ri))
            (emit StartTransaction s2) of
       (Inr t, s4) \<Rightarrow> (Inr (ConvertDone ''Currency converted successfully'' t ri), emit Release s4)
     | (Inl e, s4) \<Rightarrow>
         (Inl e, emit Release (mark_failed (c_reference dto) e
                   (rollbackTransaction (emit StartTransaction s2) s4))))"
  using ne fresh rate by (simp add: convertCurrency_def Let_def)

lemma convertCurrency_done:
  assumes ne: "c_fromCurrency dto \<noteq> c_toCurrency dto"
    and fresh: "transactions s (c_reference dto) = None"
    and rate: "getRate env (c_fromCurrency dto) (c_toCurrency dto)
                 (emit (FindTransaction (c_reference dto)) s) = (Inr ri, s2)"
    and row: "transaction_row
                (convert_transaction u dto ri (convertAmount (c_amount dto) (ri_rate ri))) = Inr row"
    and src: "wallets s (u, c_fromCurrency dto) = Some w"
    and enough: "\<not> w_balance w < c_amount dto"
    and srcok: "\<bar>toFixed 2 (minus_decimal (w_balance w) (c_amount dto))\<bar> < 10 ^ 13"
    and dstok: "\<bar>toFixed 2 (plus_decimal (w_balance (find_or_create s u (c_toCurrency dto)))
                               (convertAmount (c_amount dto) (ri_rate ri)))\<bar> < 10 ^ 13"
  shows "convertCurrency env u dto s =
    (Inr (ConvertDone ''Currency converted successfully''
            ((convert_transaction u dto ri (convertAmount (c_amount dto) (ri_rate ri)))
               \<lparr>t_status := COMPLETED\<rparr>) ri),
     s2\<lparr>wallets := (wallets s)
            ((u, c_fromCurrency dto) \<mapsto>
               w\<lparr>w_balance := toFixed 2 (minus_decimal (w_balance w) (c_amount dto))\<rparr>,
             (u, c_toCurrency dto) \<mapsto> (find_or_create s u (c_toCurrency dto))
                \<lparr>w_balance :=
                   toFixed 2 (plus_decimal (w_balance (find_or_create s u (c_toCurrency dto)))
                                (convertAmount (c_amount dto) (ri_rate ri)))\<rparr>),
        transactions := (transactions s)(c_reference dto \<mapsto> row\<lparr>t_status := COMPLETED\<rparr>),
        trace := trace s2 @
           [StartTransaction, SaveTransaction (c_reference dto) PENDING,
            LockWallet u (c_fromCurrency dto), SaveWallet u (c_fromCurrency dto),
            LockWallet u (c_toCurrency dto), SaveWallet u (c_toCurrency dto),
            SaveTransaction (c_reference dto) COMPLETED, CommitTransaction, Release]\<rparr>)"
proof -
  let ?s3 = "emit StartTransaction s2"
  have w2: "wallets s2 = wallets s" and t2: "transactions s2 = transactions s"
    using getRate_frame' [OF rate] by simp_all
  have fc: "find_or_create ?s3 u c = find_or_create s u c"
    and fc2: "find_or_create s2 u c = find_or_create s u c" for c
    by (simp_all add: find_or_create_def w2)
  have fresh': "transactions ?s3 (c_reference dto) = None"
    by (simp add: t2 fresh)
  have src': "wallets ?s3 (u, c_fromCurrency dto) = Some w"
    by (simp add: w2 src)
  have dstok': "\<bar>toFixed 2 (plus_decimal (w_balance (find_or_create ?s3 u (c_toCurrency dto)))
                               (convertAmount (c_amount dto) (ri_rate ri)))\<bar> < 10 ^ 13"
    using dstok by (simp only: fc)
  from convert_unit_of_work_done [OF row fresh' ne src' enough srcok dstok']
  show ?thesis
    by (simp add: convertCurrency_run [OF ne fresh rate] fc fc2 w2 t2 emit_def)
qed

lemma convertCurrency_short:
  assumes ne: "c_fromCurrency dto \<noteq> c_toCurrency dto"
    and fresh: "transactions s (c_reference dto) = None"
    and rate: "getRate env (c_fromCurrency dto) (c_toCurrency dto)
                 (emit (FindTransaction (c_reference dto)) s) = (Inr ri, s2)"
    and row: "transaction_row
                (convert_transaction u dto ri (convertAmount (c_amount dto) (ri_rate ri))) = Inr row"
    and src: "wallets s (u, c_fromCurrency dto) = Some w"
    and short: "w_balance w < c_amount dto"
  shows "fst (convertCurrency env u dto s) =
           Inl (BadRequestException
                  (''Insufficient balance in '' @ currency_code (c_fromCurrency dto) @ '' wallet''))"
    and "wallets (snd (convertCurrency env u dto s)) = wallets s"
    and "transactions (snd (convertCurrency env u dto s)) = transactions s"
    and "trace (snd (convertCurrency env u dto s)) =
           trace s2 @ [StartTransaction, SaveTransaction (c_reference dto) PENDING,
                       LockWallet u (c_fromCurrency dto), RollbackTransaction,
                       FindTransaction (c_reference dto), Release]"
proof -
  have w2: "wallets s2 = wallets s" and t2: "transactions s2 = transactions s"
    using getRate_frame' [OF rate] by simp_all
  obtain r s4 where uow: "convert_unit_of_work u dto ri (convertAmount (c_amount dto) (ri_rate ri))
            (emit StartTransaction s2) = (r, s4)"
    by (cases "convert_unit_of_work u dto ri (convertAmount (c_amount dto) (ri_rate ri))
            (emit StartTransaction s2)")
  have r: "r = Inl (BadRequestException
                  (''Insufficient balance in '' @ currency_code (c_fromCurrency dto) @ '' wallet''))"
    and tr: "trace s4 = trace s2 @ [StartTransaction, SaveTransaction (c_reference dto) PENDING,
                LockWallet u (c_fromCurrency dto)]"
    using convert_unit_of_work_insufficient [OF row, of "emit StartTransaction s2" w]
      uow fresh src short w2 t2
    by simp_all
  have mf: "mark_failed (c_reference dto) e (rollbackTransaction (emit StartTransaction s2) s4) =
      emit (FindTransaction (c_reference dto)) (rollbackTransaction (emit StartTransaction s2) s4)" for e
    by (rule mark_failed_absent) (simp add: t2 fresh)
  show "fst (convertCurrency env u dto s) =
           Inl (BadRequestException
                  (''Insufficient balance in '' @ currency_code (c_fromCurrency dto) @ '' wallet''))"
    and "wallets (snd (convertCurrency env u dto s)) = wallets s"
    and "transactions (snd (convertCurrency env u dto s)) = transactions s"
    and "trace (snd (convertCurrency env u dto s)) =
           trace s2 @ [StartTransaction, SaveTransaction (c_reference dto) PENDING,
                       LockWallet u (c_fromCurrency dto), RollbackTransaction,
                       FindTransaction (c_reference dto), Release]"
    by (simp_all add: convertCurrency_run [OF ne fresh rate] uow r mf tr w2 t2)
qed

lemma fund_unit_of_work_done:
  assumes fresh: "transactions s (f_reference dto) = None"
    and rowok: "\<bar>toFixed 2 (f_amount dto)\<bar> < 10 ^ 13"
    and balok: "\<bar>toFixed 2 (plus_decimal (balance_of s u (f_currency dto)) (f_amount dto))\<bar> < 10 ^ 13"
  shows "fund_unit_of_work u dto s =
    (Inr (FundDone ''Wallet funded successfully''
            ((fund_transaction u dto)\<lparr>t_status := COMPLETED\<rparr>)
            ((find_or_create s u (f_currency dto))
               \<lparr>w_balance := toFixed 2 (plus_decimal (balance_of s u (f_currency dto)) (f_amount dto))\<rparr>)),
     s\<lparr>wallets := (wallets s)
            ((u, f_currency dto) \<mapsto> (find_or_create s u (f_currency dto))
               \<lparr>w_balance := toFixed 2 (plus_decimal (balance_of s u (f_currency dto)) (f_amount dto))\<rparr>),
        transactions := (transactions s)
            (f_reference dto \<mapsto>
               (fund_transaction u dto)\<lparr>t_toAmount := Some (toFixed 2 (f_amount dto)),
                                          t_status := COMPLETED\<rparr>),
        trace := trace s @
           [SaveTransaction (f_reference dto) PENDING,
            LockWallet u (f_currency dto), SaveWallet u (f_currency dto),
            SaveTransaction (f_reference dto) COMPLETED, CommitTransaction]\<rparr>)"
proof -
  let ?tx = "fund_transaction u dto"
  let ?row = "?tx\<lparr>t_toAmount := Some (toFixed 2 (f_amount dto))\<rparr>"
  let ?w = "(find_or_create s u (f_currency dto))
               \<lparr>w_balance := toFixed 2 (plus_decimal (balance_of s u (f_currency dto)) (f_amount dto))\<rparr>"
  note row = fund_transaction_row [OF rowok, of u]
  define s1 where "s1 = s\<lparr>transactions := (transactions s)(f_reference dto \<mapsto> ?row),
                          trace := trace s @ [SaveTransaction (f_reference dto) PENDING]\<rparr>"
  define s2 where "s2 = s1\<lparr>wallets := (wallets s1)((u, f_currency dto) \<mapsto> ?w),
                           trace := trace s1 @ [LockWallet u (f_currency dto),
                                                SaveWallet u (f_currency dto)]\<rparr>"
  define s3 where "s3 = s2\<lparr>transactions := (transactions s2)
                             (f_reference dto \<mapsto> ?row\<lparr>t_status := COMPLETED\<rparr>),
                           trace := trace s2 @ [SaveTransaction (f_reference dto) COMPLETED]\<rparr>"
  have i: "insertTransaction ?tx s = (Inr (), s1)"
    using insertTransaction_ok [OF row, of s] fresh by (simp add: s1_def emit_def)
  have fc: "find_or_create s1 u (f_currency dto) = find_or_create s u (f_currency dto)"
    by (simp add: find_or_create_def s1_def)
  have sv: "saveWallet u (f_currency dto)
           ((find_or_create s1 u (f_currency dto))
              \<lparr>w_balance := toFixed 2 (plus_decimal (w_balance (find_or_create s1 u (f_currency dto)))
                                         (f_amount dto))\<rparr>)
           (emit (LockWallet u (f_currency dto)) s1) = (Inr (), s2)"
    using balok by (simp add: saveWallet_eq fc balance_of_def s2_def emit_def)
  from updateTransaction_ok [OF transaction_row_status [OF row, where st = COMPLETED],
      where r = "f_reference dto" and s = s2]
  have up: "updateTransaction (f_reference dto) (?tx\<lparr>t_status := COMPLETED\<rparr>) s2 = (Inr (), s3)"
    by (simp add: s3_def emit_def)
  show ?thesis
    by (simp add: fund_unit_of_work_steps [OF i sv up] fc balance_of_def s3_def s2_def s1_def emit_def)
qed

lemma fundWallet_fresh:
  assumes fresh: "transactions s (f_reference dto) = None"
    and rowok: "\<bar>toFixed 2 (f_amount dto)\<bar> < 10 ^ 13"
    and balok: "\<bar>toFixed 2 (plus_decimal (balance_of s u (f_currency dto)) (f_amount dto))\<bar> < 10 ^ 13"
  shows "fundWallet u dto s =
    (Inr (FundDone ''Wallet funded successfully''
            ((fund_transaction u dto)\<lparr>t_status := COMPLETED\<rparr>)
            ((find_or_create s u (f_currency dto))
               \<lparr>w_balance := toFixed 2 (plus_decimal (balance_of s u (f_currency dto)) (f_amount dto))\<rparr>)),
     s\<lparr>wallets := (wallets s)
            ((u, f_currency dto) \<mapsto> (find_or_create s u (f_currency dto))
               \<lparr>w_balance := toFixed 2 (plus_decimal (balance_of s u (f_currency dto)) (f_amount dto))\<rparr>),
        transactions := (transactions s)
            (f_reference dto \<mapsto>
               (fund_transaction u dto)\<lparr>t_toAmount := Some (toFixed 2 (f_amount dto)),
                                          t_status := COMPLETED\<rparr>),
        trace := trace s @
           [FindTransaction (f_reference dto), StartTransaction,
            SaveTransaction (f_reference dto) PENDING,
            LockWallet u (f_currency dto), SaveWallet u (f_currency dto),
            SaveTransaction (f_reference dto) COMPLETED, CommitTransaction, Release]\<rparr>)"
proof -
  let ?s2 = "emit StartTransaction (emit (FindTransaction (f_reference dto)) s)"
  have fresh': "transactions ?s2 (f_reference dto) = None" by (simp add: fresh)
  have balok': "\<bar>toFixed 2 (plus_decimal (balance_of ?s2 u (f_currency dto)) (f_amount dto))\<bar> < 10 ^ 13"
    using balok by (simp add: balance_of_def)
  from fund_unit_of_work_done [OF fresh' rowok balok'] fresh
  show ?thesis
    by (simp add: fundWallet_def Let_def balance_of_def emit_def)
qed

lemma fundWallet_known:
  assumes "transactions s (f_reference dto) = Some existing"
  shows "fundWallet u dto s =
     (case t_status existing of
        COMPLETED \<Rightarrow> Inr (FundAlreadyProcessed ''Transaction already processed'' existing)
      | PENDING \<Rightarrow> Inl (BadRequestException ''Transaction is being processed. Please wait.'')
      | FAILED \<Rightarrow> Inl (BadRequestException ''Transaction has failed. Please use a new reference.''),
      emit (FindTransaction (f_reference dto)) s)"
  using assms by (cases "t_status existing") (simp_all add: fundWallet_def Let_def)

lemma convertCurrency_known:
  assumes "c_fromCurrency dto \<noteq> c_toCurrency dto"
    and "transactions s (c_reference dto) = Some existing"
  shows "convertCurrency env u dto s =
     (case t_status existing of
        COMPLETED \<Rightarrow> Inr (ConvertAlreadyProcessed ''Conversion already processed'' existing)
      | PENDING \<Rightarrow> Inl (BadRequestException ''Conversion is being processed. Please wait.'')
      | FAILED \<Rightarrow> Inl (BadRequestException ''Conversion has failed. Please use a new reference.''),
      emit (FindTransaction (c_reference dto)) s)"
  using assms by (cases "t_status existing") (simp_all add: convertCurrency_def Let_def)

lemma rate_fallback_trace:
  "trace (snd (rate_fallback env f t s)) = trace s @ [FindLastRate f t]"
  by (simp add: rate_fallback_def Let_def split: option.splits)

lemma saveRateToDatabase_trace [simp]:
  "trace (saveRateToDatabase env r s) = trace s @ [SaveRate (ri_fromCurrency r) (ri_toCurrency r)]"
  by (simp add: saveRateToDatabase_def Let_def)

lemma getRate_trace:
  "\<exists>evs. trace (snd (getRate env f t s)) = trace s @ evs \<and> filter is_wallet_event evs = []"
  by (auto simp: getRate_def Let_def rate_fallback_trace split: option.splits sum.splits)

text \<open>
  A conversion that answers with \<open>ConvertDone\<close> has passed both gates, resolved the rate and
  run its unit of work to the commit.
\<close>

lemma convertCurrency_done_inv:
  assumes completed: "fst (convertCurrency env u dto s) = Inr (ConvertDone m t ri)"
  obtains s2 s4 where "c_fromCurrency dto \<noteq> c_toCurrency dto"
    and "transactions s (c_reference dto) = None"
    and "getRate env (c_fromCurrency dto) (c_toCurrency dto)
           (emit (FindTransaction (c_reference dto)) s) = (Inr ri, s2)"
    and "convert_unit_of_work u dto ri (convertAmount (c_amount dto) (ri_rate ri))
           (emit StartTransaction s2) = (Inr t, s4)"
    and "snd (convertCurrency env u dto s) = emit Release s4"
proof -
  have ne: "c_fromCurrency dto \<noteq> c_toCurrency dto"
    using completed by (auto simp: convertCurrency_def)
  have fresh: "transactions s (c_reference dto) = None"
  proof (cases "transactions s (c_reference dto)")
    case (Some existing)
    with completed ne show ?thesis
      by (cases "t_status existing") (simp_all add: convertCurrency_known)
  qed simp
  obtain r s2 where rate: "getRate env (c_fromCurrency dto) (c_toCurrency dto)
                 (emit (FindTransaction (c_reference dto)) s) = (r, s2)"
    by (cases "getRate env (c_fromCurrency dto) (c_toCurrency dto)
                 (emit (FindTransaction (c_reference dto)) s)")
  have "\<exists>ri'. r = Inr ri'"
  proof (cases r)
    case (Inl e)
    with completed ne fresh rate show ?thesis by (simp add: convertCurrency_def Let_def)
  qed simp
  then obtain ri' where r: "r = Inr ri'" ..
  note run = convertCurrency_run [OF ne fresh rate [unfolded r], of u]
  obtain q s4 where uow: "convert_unit_of_work u dto ri' (convertAmount (c_amount dto) (ri_rate ri'))
           (emit StartTransaction s2) = (q, s4)"
    by (cases "convert_unit_of_work u dto ri' (convertAmount (c_amount dto) (ri_rate ri'))
           (emit StartTransaction s2)")
  from completed run uow have q: "q = Inr t" and ri: "ri' = ri"
    by (cases q; simp)+
  from run uow q have "snd (convertCurrency env u dto s) = emit Release s4" by simp
  with that [OF ne fresh rate [unfolded r ri] uow [unfolded q ri]] show thesis .
qed

lemma convertCurrency_done_events:
  assumes completed: "fst (convertCurrency env u dto s) = Inr (ConvertDone m t ri)"
  shows "wallet_events s (snd (convertCurrency env u dto s)) =
           [LockWallet u (c_fromCurrency dto), SaveWallet u (c_fromCurrency dto),
            LockWallet u (c_toCurrency dto), SaveWallet u (c_toCurrency dto)]"
proof -
  from completed obtain s2 s4 where
    rate: "getRate env (c_fromCurrency dto) (c_toCurrency dto)
             (emit (FindTransaction (c_reference dto)) s) = (Inr ri, s2)"
    and uow: "convert_unit_of_work u dto ri (convertAmount (c_amount dto) (ri_rate ri))
                (emit StartTransaction s2) = (Inr t, s4)"
    and fin: "snd (convertCurrency env u dto s) = emit Release s4"
    by (rule convertCurrency_done_inv)
  obtain evs where evs: "trace s2 = (trace s @ [FindTransaction (c_reference dto)]) @ evs"
    and nw: "filter is_wallet_event evs = []"
    using getRate_trace [of env "c_fromCurrency dto" "c_toCurrency dto"
        "emit (FindTransaction (c_reference dto)) s"] rate
    by auto
  have "trace s4 = trace (emit StartTransaction s2) @
           [SaveTransaction (c_reference dto) PENDING,
            LockWallet u (c_fromCurrency dto), SaveWallet u (c_fromCurrency dto),
            LockWallet u (c_toCurrency dto), SaveWallet u (c_toCurrency dto),
            SaveTransaction (c_reference dto) COMPLETED, CommitTransaction]"
    using convert_unit_of_work_trace [of u dto ri "convertAmount (c_amount dto) (ri_rate ri)"
        "emit StartTransaction s2" t] uow
    by simp
  then show ?thesis
    by (simp add: fin wallet_events_def evs nw)
qed

section \<open>Facts about sequences of operations\<close>

lemma balances_nonneg_same:
  "wallets s' = wallets s \<Longrightarrow> balances_nonneg s \<Longrightarrow> balances_nonneg s'"
  by (simp add: balances_nonneg_def)

lemma balance_of_nonneg: "balances_nonneg s \<Longrightarrow> 0 \<le> balance_of s u c"
  by (auto simp: balances_nonneg_def balance_of_def find_or_create_def new_wallet_def
      split: option.splits)

lemma rates_nonneg_same:
  "cache s' = cache s \<Longrightarrow> fx_rates s' = fx_rates s \<Longrightarrow> rates_nonneg s \<Longrightarrow> rates_nonneg s'"
  by (simp add: rates_nonneg_def)

lemma saveWallet_nonneg:
  "balances_nonneg s \<Longrightarrow> 0 \<le> w_balance w \<Longrightarrow> balances_nonneg (snd (saveWallet u c w s))"
  by (simp add: saveWallet_eq balances_nonneg_def toFixed_nonneg)

lemma addBalance_snd:
  "snd (addBalance u c a s) =
     snd (saveWallet u c
            ((find_or_create s u c)
               \<lparr>w_balance := toFixed 2 (plus_decimal (w_balance (find_or_create s u c)) a)\<rparr>)
            (emit (LockWallet u c) s))"
  by (simp add: addBalance_def Let_def split: prod.splits sum.splits)

lemma addBalance_nonneg:
  assumes "balances_nonneg s" and "0 \<le> a"
  shows "balances_nonneg (snd (addBalance u c a s))"
proof -
  have "0 \<le> w_balance (find_or_create s u c)"
    using balance_of_nonneg [OF assms(1), of u c] by (simp add: balance_of_def)
  then have "0 \<le> toFixed 2 (plus_decimal (w_balance (find_or_create s u c)) a)"
    using assms(2) by (simp add: toFixed_nonneg plus_decimal_nonneg)
  moreover have "balances_nonneg (emit (LockWallet u c) s)"
    using assms(1) by (simp add: balances_nonneg_def)
  ultimately show ?thesis
    by (simp add: addBalance_snd saveWallet_nonneg)
qed

lemma deductBalance_nonneg:
  assumes "balances_nonneg s"
  shows "balances_nonneg (snd (deductBalance u c a s))"
proof (cases "wallets s (u, c)")
  case None
  then show ?thesis
    using assms by (simp add: deductBalance_missing balances_nonneg_def)
next
  case (Some w)
  show ?thesis
  proof (cases "w_balance w < a")
    case True
    with Some assms show ?thesis
      by (simp add: deductBalance_insufficient balances_nonneg_def)
  next
    case False
    then have n: "0 \<le> toFixed 2 (minus_decimal (w_balance w) a)"
      by (simp add: toFixed_nonneg minus_decimal_nonneg)
    have e: "balances_nonneg (emit (LockWallet u c) s)"
      using assms by (simp add: balances_nonneg_def)
    have "snd (deductBalance u c a s) =
        snd (saveWallet u c (w\<lparr>w_balance := toFixed 2 (minus_decimal (w_balance w) a)\<rparr>)
               (emit (LockWallet u c) s))"
      using Some False by (simp add: deductBalance_def Let_def split: prod.splits sum.splits)
    then show ?thesis
      using saveWallet_nonneg [OF e, of "w\<lparr>w_balance := toFixed 2 (minus_decimal (w_balance w) a)\<rparr>" u c]
        n by simp
  qed
qed

lemma fund_unit_of_work_nonneg:
  assumes bn: "balances_nonneg s" and a0: "0 \<le> f_amount dto"
  shows "balances_nonneg (snd (fund_unit_of_work u dto s))"
proof -
  let ?tx = "fund_transaction u dto"
  obtain r1 s1 where i: "insertTransaction ?tx s = (r1, s1)"
    by (cases "insertTransaction ?tx s")
  let ?w = "(find_or_create s1 u (f_currency dto))
              \<lparr>w_balance := toFixed 2 (plus_decimal (w_balance (find_or_create s1 u (f_currency dto)))
                                         (f_amount dto))\<rparr>"
  obtain r2 s2 where sv: "saveWallet u (f_currency dto) ?w (emit (LockWallet u (f_currency dto)) s1)
      = (r2, s2)"
    by (cases "saveWallet u (f_currency dto) ?w (emit (LockWallet u (f_currency dto)) s1)")
  obtain r3 s3 where up: "updateTransaction (f_reference dto) (?tx\<lparr>t_status := COMPLETED\<rparr>) s2
      = (r3, s3)"
    by (cases "updateTransaction (f_reference dto) (?tx\<lparr>t_status := COMPLETED\<rparr>) s2")
  note st = fund_unit_of_work_steps [OF i sv up]
  have w1: "wallets s1 = wallets s"
    using insertTransaction_frame(1) [of ?tx s] i by simp
  have b1: "balances_nonneg s1" by (rule balances_nonneg_same [OF w1 bn])
  have "0 \<le> w_balance (find_or_create s1 u (f_currency dto))"
    using balance_of_nonneg [OF b1, of u "f_currency dto"] by (simp add: balance_of_def)
  then have n: "0 \<le> w_balance ?w"
    using a0 by (simp add: toFixed_nonneg plus_decimal_nonneg)
  have e: "balances_nonneg (emit (LockWallet u (f_currency dto)) s1)"
    using b1 by (simp add: balances_nonneg_def)
  have b2: "balances_nonneg s2"
    using saveWallet_nonneg [OF e n, of u "f_currency dto"] sv by simp
  have w3: "wallets s3 = wallets s2"
    using updateTransaction_frame(1) [of "f_reference dto" "?tx\<lparr>t_status := COMPLETED\<rparr>" s2] up
    by simp
  have b3: "balances_nonneg s3" by (rule balances_nonneg_same [OF w3 b2])
  have b4: "balances_nonneg (emit CommitTransaction s3)"
    using b3 by (simp add: balances_nonneg_def)
  show ?thesis
    using b1 b2 b3 b4 by (simp add: st split: sum.splits)
qed

lemma fundWallet_nonneg:
  assumes "balances_nonneg s" and "0 \<le> f_amount dto"
  shows "balances_nonneg (snd (fundWallet u dto s))"
proof (cases "transactions s (f_reference dto)")
  case (Some existing)
  then show ?thesis
    using assms(1) by (simp add: fundWallet_known balances_nonneg_def)
next
  case None
  let ?s2 = "emit StartTransaction (emit (FindTransaction (f_reference dto)) s)"
  obtain r s3 where uow: "fund_unit_of_work u dto ?s2 = (r, s3)"
    by (cases "fund_unit_of_work u dto ?s2")
  have b2: "balances_nonneg ?s2"
    using assms(1) by (simp add: balances_nonneg_def)
  have b3: "balances_nonneg s3"
    using fund_unit_of_work_nonneg [OF b2 assms(2), of u] uow by simp
  show ?thesis
  proof (cases r)
    case (Inl e)
    with None uow assms(1) show ?thesis
      by (simp add: fundWallet_def Let_def balances_nonneg_def)
  next
    case (Inr resp)
    with None uow b3 show ?thesis
      by (simp add: fundWallet_def Let_def balances_nonneg_def)
  qed
qed

lemma fundWallet_frame [simp]:
  "cache (snd (fundWallet u dto s)) = cache s"
  "fx_rates (snd (fundWallet u dto s)) = fx_rates s"
proof -
  have "cache (snd (fundWallet u dto s)) = cache s \<and> fx_rates (snd (fundWallet u dto s)) = fx_rates s"
  proof (cases "transactions s (f_reference dto)")
    case (Some existing)
    then show ?thesis by (simp add: fundWallet_known)
  next
    case None
    let ?s2 = "emit StartTransaction (emit (FindTransaction (f_reference dto)) s)"
    obtain r s3 where uow: "fund_unit_of_work u dto ?s2 = (r, s3)"
      by (cases "fund_unit_of_work u dto ?s2")
    have "cache s3 = cache s" "fx_rates s3 = fx_rates s"
      using fund_unit_of_work_frame [of u dto ?s2] uow by simp_all
    with None uow show ?thesis
      by (cases r) (simp_all add: fundWallet_def Let_def)
  qed
  then show "cache (snd (fundWallet u dto s)) = cache s"
    and "fx_rates (snd (fundWallet u dto s)) = fx_rates s"
    by simp_all
qed

lemma convert_unit_of_work_nonneg:
  assumes bn: "balances_nonneg s" and c0: "0 \<le> ca"
  shows "balances_nonneg (snd (convert_unit_of_work u dto ri ca s))"
proof -
  let ?tx = "convert_transaction u dto ri ca"
  obtain r1 s1 where i: "insertTransaction ?tx s = (r1, s1)"
    by (cases "insertTransaction ?tx s")
  obtain r2 s2 where d: "deductBalance u (c_fromCurrency dto) (c_amount dto) s1 = (r2, s2)"
    by (cases "deductBalance u (c_fromCurrency dto) (c_amount dto) s1")
  obtain r3 s3 where a: "addBalance u (c_toCurrency dto) ca s2 = (r3, s3)"
    by (cases "addBalance u (c_toCurrency dto) ca s2")
  obtain r4 s4 where up: "updateTransaction (c_reference dto) (?tx\<lparr>t_status := COMPLETED\<rparr>) s3
      = (r4, s4)"
    by (cases "updateTransaction (c_reference dto) (?tx\<lparr>t_status := COMPLETED\<rparr>) s3")
  note st = convert_unit_of_work_steps [OF i d a up]
  have w1: "wallets s1 = wallets s"
    using insertTransaction_frame(1) [of ?tx s] i by simp
  have b1: "balances_nonneg s1" by (rule balances_nonneg_same [OF w1 bn])
  have b2: "balances_nonneg s2"
    using deductBalance_nonneg [OF b1, of u "c_fromCurrency dto" "c_amount dto"] d by simp
  have b3: "balances_nonneg s3"
    using addBalance_nonneg [OF b2 c0, of u "c_toCurrency dto"] a by simp
  have w4: "wallets s4 = wallets s3"
    using updateTransaction_frame(1) [of "c_reference dto" "?tx\<lparr>t_status := COMPLETED\<rparr>" s3] up
    by simp
  have b4: "balances_nonneg s4" by (rule balances_nonneg_same [OF w4 b3])
  have b5: "balances_nonneg (emit CommitTransaction s4)"
    using b4 by (simp add: balances_nonneg_def)
  show ?thesis
    using b1 b2 b3 b4 b5 by (simp add: st split: sum.splits)
qed

lemma convertCurrency_rates_frame:
  "(cache (snd (convertCurrency env u dto s)) = cache s
      \<and> fx_rates (snd (convertCurrency env u dto s)) = fx_rates s)
   \<or> (cache (snd (convertCurrency env u dto s)) =
         cache (snd (getRate env (c_fromCurrency dto) (c_toCurrency dto)
                       (emit (FindTransaction (c_reference dto)) s)))
      \<and> fx_rates (snd (convertCurrency env u dto s)) =
         fx_rates (snd (getRate env (c_fromCurrency dto) (c_toCurrency dto)
                       (emit (FindTransaction (c_reference dto)) s))))"
proof (cases "c_fromCurrency dto = c_toCurrency dto")
  case True
  then show ?thesis by (simp add: convertCurrency_def)
next
  case ne: False
  show ?thesis
  proof (cases "transactions s (c_reference dto)")
    case (Some existing)
    then show ?thesis using ne by (simp add: convertCurrency_known)
  next
    case None
    obtain r s2 where rate: "getRate env (c_fromCurrency dto) (c_toCurrency dto)
                 (emit (FindTransaction (c_reference dto)) s) = (r, s2)"
      by (cases "getRate env (c_fromCurrency dto) (c_toCurrency dto)
                 (emit (FindTransaction (c_reference dto)) s)")
    show ?thesis
    proof (cases r)
      case (Inl e)
      with ne None rate show ?thesis by (simp add: convertCurrency_def Let_def)
    next
      case (Inr ri)
      obtain q s4 where uow: "convert_unit_of_work u dto ri
            (convertAmount (c_amount dto) (ri_rate ri)) (emit StartTransaction s2) = (q, s4)"
        by (cases "convert_unit_of_work u dto ri
            (convertAmount (c_amount dto) (ri_rate ri)) (emit StartTransaction s2)")
      have "cache s4 = cache s2" "fx_rates s4 = fx_rates s2"
        using convert_unit_of_work_frame [of u dto ri "convertAmount (c_amount dto) (ri_rate ri)"
            "emit StartTransaction s2"] uow by simp_all
      then show ?thesis
        using convertCurrency_run [OF ne None rate [unfolded Inr], of u] uow rate
        by (cases q) simp_all
    qed
  qed
qed

lemma latest_mem: "latest xs = Some r \<Longrightarrow> r \<in> set xs"
  by (induction xs arbitrary: r) (auto split: option.splits if_splits)

lemma latest_greatest:
  "latest xs = Some r \<Longrightarrow> \<forall>x \<in> set xs. fr_fetchedAt x \<le> fr_fetchedAt r"
proof (induction xs arbitrary: r)
  case Nil
  then show ?case by simp
next
  case (Cons x xs)
  show ?case
  proof (cases "latest xs")
    case None
    then have "xs = []" by (cases xs) (auto split: option.splits if_splits)
    with Cons.prems show ?thesis by simp
  next
    case (Some r')
    from Cons.IH [OF Some] Cons.prems Some show ?thesis
      by (auto split: if_splits)
  qed
qed

lemma latest_filter:
  assumes "latest (filter P xs) = Some r"
  shows "r \<in> set xs" and "P r" and "\<forall>x \<in> set xs. P x \<longrightarrow> fr_fetchedAt x \<le> fr_fetchedAt r"
  using latest_mem [OF assms] latest_greatest [OF assms] by auto

lemma getLastKnownRate_nonneg:
  assumes "rates_nonneg s" and "fx_rates s' = fx_rates s"
    and "getLastKnownRate env f t s' = Some r"
  shows "0 \<le> ri_rate r"
proof -
  from assms(3) obtain entry where
    l: "latest (filter (\<lambda>r. fr_fromCurrency r = f \<and> fr_toCurrency r = t) (fx_rates s')) = Some entry"
    and r: "r = last_known entry"
    by (auto simp: getLastKnownRate_def split: if_splits option.splits)
  from latest_mem [OF l] have "entry \<in> set (fx_rates s)" using assms(2) by simp
  with assms(1) have "0 \<le> fr_rate entry" by (simp add: rates_nonneg_def)
  then show ?thesis by (simp add: r last_known_def)
qed

lemma rate_fallback_nonneg:
  assumes "rates_nonneg s" and "fx_rates s' = fx_rates s"
    and "fst (rate_fallback env f t s') = Inr ri"
  shows "0 \<le> ri_rate ri"
  using assms(3) getLastKnownRate_nonneg [OF assms(1), of "emit (FindLastRate f t) s'" env f t]
    assms(2)
  by (auto simp: rate_fallback_def Let_def split: option.splits if_splits)

lemma fetchFromApi_nonneg:
  "api_nonneg env \<Longrightarrow> fetchFromApi env f t = Inr ri \<Longrightarrow> 0 \<le> ri_rate ri"
  by (auto simp: fetchFromApi_def api_nonneg_def toFixed_nonneg split: sum.splits option.splits
      if_splits)

lemma getRate_nonneg:
  assumes rn: "rates_nonneg s" and an: "api_nonneg env"
  shows "rates_nonneg (snd (getRate env f t s))"
    and "fst (getRate env f t s) = Inr ri \<Longrightarrow> 0 \<le> ri_rate ri"
proof -
  have both: "rates_nonneg (snd (getRate env f t s))
      \<and> (fst (getRate env f t s) = Inr ri \<longrightarrow> 0 \<le> ri_rate ri)"
  proof (cases "f = t")
    case True
    with rn show ?thesis by (auto simp: getRate_def)
  next
    case ne: False
    show ?thesis
    proof (cases "cache s (f, t)")
      case (Some cached)
      with rn have "0 \<le> ri_rate cached" by (simp add: rates_nonneg_def)
      with Some ne rn show ?thesis
        by (auto simp: getRate_def Let_def intro: rates_nonneg_same)
    next
      case None
      have fb: "rates_nonneg (snd (rate_fallback env f t s'))
          \<and> (fst (rate_fallback env f t s') = Inr ri \<longrightarrow> 0 \<le> ri_rate ri)"
        if "cache s' = cache s" "fx_rates s' = fx_rates s" for s'
        using rates_nonneg_same [OF _ _ rn, of "snd (rate_fallback env f t s')"]
          rate_fallback_nonneg [OF rn that(2), of env f t ri] that
        by (simp add: rate_fallback_frame)
      show ?thesis
      proof (cases "fetchFromApi env f t")
        case (Inl e)
        with ne None fb [of "emit (ApiGet f) (emit (CacheGet f t) s)"] show ?thesis
          by (simp add: getRate_def Let_def)
      next
        case (Inr rate)
        have r0: "0 \<le> ri_rate rate" by (rule fetchFromApi_nonneg [OF an Inr])
        show ?thesis
        proof (cases "cache_set_ok env")
          case False
          with ne None Inr
            fb [of "emit (CacheSet f t) (emit (ApiGet f) (emit (CacheGet f t) s))"]
          show ?thesis by (simp add: getRate_def Let_def)
        next
          case True
          with ne None Inr r0 rn show ?thesis
            by (auto simp: getRate_def Let_def rates_nonneg_def saveRateToDatabase_def emit_def)
        qed
      qed
    qed
  qed
  from both show "rates_nonneg (snd (getRate env f t s))" by simp
  from both show "fst (getRate env f t s) = Inr ri \<Longrightarrow> 0 \<le> ri_rate ri" by simp
qed

lemma convertCurrency_nonneg:
  assumes bn: "balances_nonneg s" and rn: "rates_nonneg s"
    and an: "api_nonneg env" and a0: "0 \<le> c_amount dto"
  shows "balances_nonneg (snd (convertCurrency env u dto s))"
proof (cases "c_fromCurrency dto = c_toCurrency dto")
  case True
  with bn show ?thesis by (simp add: convertCurrency_def)
next
  case ne: False
  show ?thesis
  proof (cases "transactions s (c_reference dto)")
    case (Some existing)
    from convertCurrency_known [OF ne this, of env u] bn show ?thesis
      by (simp add: balances_nonneg_def)
  next
    case None
    obtain r s2 where rate: "getRate env (c_fromCurrency dto) (c_toCurrency dto)
                 (emit (FindTransaction (c_reference dto)) s) = (r, s2)"
      by (cases "getRate env (c_fromCurrency dto) (c_toCurrency dto)
                 (emit (FindTransaction (c_reference dto)) s)")
    have w2: "wallets s2 = wallets s"
      using getRate_frame' [OF rate] by simp
    show ?thesis
    proof (cases r)
      case (Inl e)
      with ne None rate w2 bn show ?thesis
        by (simp add: convertCurrency_def Let_def balances_nonneg_def)
    next
      case (Inr ri)
      have rn': "rates_nonneg (emit (FindTransaction (c_reference dto)) s)"
        using rn by (simp add: rates_nonneg_def)
      have r0: "0 \<le> ri_rate ri"
        using getRate_nonneg(2) [OF rn' an, of "c_fromCurrency dto" "c_toCurrency dto" ri] rate Inr
        by simp
      have ca: "0 \<le> convertAmount (c_amount dto) (ri_rate ri)"
        by (rule convertAmount_nonneg [OF a0 r0])
      let ?s3 = "emit StartTransaction s2"
      obtain q s4 where uow: "convert_unit_of_work u dto ri
            (convertAmount (c_amount dto) (ri_rate ri)) ?s3 = (q, s4)"
        by (cases "convert_unit_of_work u dto ri
            (convertAmount (c_amount dto) (ri_rate ri)) ?s3")
      have b3: "balances_nonneg ?s3"
        using bn w2 by (simp add: balances_nonneg_def)
      have b4: "balances_nonneg s4"
        using convert_unit_of_work_nonneg [OF b3 ca, of u dto ri] uow by simp
      note run = convertCurrency_run [OF ne None rate [unfolded Inr], of u]
      show ?thesis
      proof (cases q)
        case (Inl e)
        with run uow bn w2 show ?thesis
          by (simp add: balances_nonneg_def)
      next
        case (Inr t)
        with run uow b4 show ?thesis
          by (simp add: balances_nonneg_def)
      qed
    qed
  qed
qed

lemma convertCurrency_rates_nonneg:
  assumes rn: "rates_nonneg s" and an: "api_nonneg env"
  shows "rates_nonneg (snd (convertCurrency env u dto s))"
proof -
  have rn': "rates_nonneg (emit (FindTransaction (c_reference dto)) s)"
    using rn by (simp add: rates_nonneg_def)
  note g = getRate_nonneg(1) [OF rn' an, of "c_fromCurrency dto" "c_toCurrency dto"]
  from convertCurrency_rates_frame [of env u dto s] show ?thesis
  proof
    assume "cache (snd (convertCurrency env u dto s)) = cache s
      \<and> fx_rates (snd (convertCurrency env u dto s)) = fx_rates s"
    then show ?thesis using rn by (simp add: rates_nonneg_def)
  next
    assume "cache (snd (convertCurrency env u dto s)) =
         cache (snd (getRate env (c_fromCurrency dto) (c_toCurrency dto)
                       (emit (FindTransaction (c_reference dto)) s)))
      \<and> fx_rates (snd (convertCurrency env u dto s)) =
         fx_rates (snd (getRate env (c_fromCurrency dto) (c_toCurrency dto)
                       (emit (FindTransaction (c_reference dto)) s)))"
    then show ?thesis using g by (simp add: rates_nonneg_def)
  qed
qed

lemma exec_nonneg:
  assumes "balances_nonneg s" and "rates_nonneg s" and "amounts_nonneg op"
  shows "balances_nonneg (exec op s) \<and> rates_nonneg (exec op s)"
proof (cases op)
  case (Fund u dto)
  with assms show ?thesis
    by (simp add: fundWallet_nonneg rates_nonneg_def)
next
  case (Credit u c a)
  with assms show ?thesis
    by (simp add: addBalance_nonneg rates_nonneg_def)
next
  case (Debit u c a)
  with assms show ?thesis
    by (simp add: deductBalance_nonneg rates_nonneg_def)
next
  case (Convert env u dto)
  with assms show ?thesis
    by (simp add: convertCurrency_nonneg convertCurrency_rates_nonneg)
qed

lemma run_nonneg:
  "balances_nonneg s \<Longrightarrow> rates_nonneg s \<Longrightarrow> \<forall>op \<in> set ops. amounts_nonneg op \<Longrightarrow>
   balances_nonneg (run ops s) \<and> rates_nonneg (run ops s)"
proof (induction ops arbitrary: s)
  case Nil
  then show ?case by simp
next
  case (Cons op ops)
  from exec_nonneg [OF Cons.prems(1,2), of op] Cons.prems(3)
  have "balances_nonneg (exec op s)" "rates_nonneg (exec op s)" by simp_all
  from Cons.IH [OF this] Cons.prems(3) show ?case by simp
qed

section \<open>Facts about the scenarios\<close>

lemma plus_decimal_exact:
  "fits d (x + y) \<Longrightarrow> \<bar>x + y\<bar> < 10 ^ m \<Longrightarrow> d + m \<le> 20 \<Longrightarrow> plus_decimal x y = x + y"
  unfolding plus_decimal_def by (rule toSignificantDigits_exact)

lemma minus_decimal_exact:
  "fits d (x - y) \<Longrightarrow> \<bar>x - y\<bar> < 10 ^ m \<Longrightarrow> d + m \<le> 20 \<Longrightarrow> minus_decimal x y = x - y"
  unfolding minus_decimal_def by (rule toSignificantDigits_exact)

lemma show_nat_6: "show_nat 6 = ''6''"
  by code_simp

lemma show_nat_50: "show_nat 50 = ''50''"
  by code_simp

lemma times_scenario: "times_decimal 10000 (13 / 20000) = 13 / 2"
  using times_decimal_exact [of 1 10000 "13 / 20000" 1] by (simp add: fits_def)

lemma times_cent: "times_decimal (1 / 100) (13 / 20000) = 13 / 2000000"
  using times_decimal_exact [of 7 "1 / 100" "13 / 20000" 0] by (simp add: fits_def)

lemma times_fine: "times_decimal (3 / 200) (13 / 20000) = 39 / 4000000"
  using times_decimal_exact [of 8 "3 / 200" "13 / 20000" 0] by (simp add: fits_def)

lemma times_back: "times_decimal 10 (76923 / 50) = 76923 / 5"
  using times_decimal_exact [of 1 10 "76923 / 50" 5] by (simp add: fits_def)

lemma convertAmount_scenario:
  "convertAmount 10000 (13 / 20000) = 13 / 2"
  "convertAmount_string 10000 (13 / 20000) = ''6.50''"
  by (simp_all add: convertAmount_def convertAmount_string_def times_scenario toFixed_def
      toFixed_string_def round_half_up_def show_nat_6 show_nat_50)

lemma convertAmount_cent:
  "convertAmount (1 / 100) (13 / 20000) = 0"
  "convertAmount_string (1 / 100) (13 / 20000) = ''0.00''"
  by (simp_all add: convertAmount_def convertAmount_string_def times_cent toFixed_def
      toFixed_string_def round_half_up_def show_nat_0)

lemma convertAmount_fine: "convertAmount (3 / 200) (13 / 20000) = 0"
  by (simp add: convertAmount_def times_fine toFixed_def round_half_up_def)

lemma convertAmount_back: "convertAmount 10 (76923 / 50) = 76923 / 5"
  by (simp add: convertAmount_def times_back toFixed_def round_half_up_def)

lemma funded_state_eq:
  "funded_state =
     \<lparr>wallets = [(''U1'', NGN) \<mapsto>
         \<lparr>w_userId = ''U1'', w_currency = NGN, w_balance = 50000, w_lockedBalance = 0\<rparr>],
      transactions = [''ref-1'' \<mapsto>
         (fund_transaction ''U1'' \<lparr>f_currency = NGN, f_amount = 50000, f_reference = ''ref-1''\<rparr>)
           \<lparr>t_status := COMPLETED\<rparr>],
      fx_rates = [], cache = Map.empty,
      trace = [FindTransaction ''ref-1'', StartTransaction, SaveTransaction ''ref-1'' PENDING,
               LockWallet ''U1'' NGN, SaveWallet ''U1'' NGN,
               SaveTransaction ''ref-1'' COMPLETED, CommitTransaction, Release]\<rparr>"
proof -
  let ?dto = "\<lparr>f_currency = NGN, f_amount = 50000, f_reference = ''ref-1''\<rparr>"
  have b: "balance_of empty_state ''U1'' NGN = 0"
    by (simp add: balance_of_def find_or_create_def new_wallet_def empty_state_def)
  have p: "toFixed 2 (plus_decimal 0 50000) = 50000"
    using money_plus [of 0 50000] by (simp add: fits_def)
  have t: "toFixed 2 (50000 :: rat) = 50000"
    by (simp add: toFixed_def)
  have tr: "transactions empty_state r = None" for r
    by (simp add: empty_state_def)
  have "fundWallet ''U1'' ?dto empty_state = (Inr (FundDone ''Wallet funded successfully''
            ((fund_transaction ''U1'' ?dto)\<lparr>t_status := COMPLETED\<rparr>)
            ((find_or_create empty_state ''U1'' (f_currency ?dto))
               \<lparr>w_balance := toFixed 2 (plus_decimal (balance_of empty_state ''U1'' (f_currency ?dto))
                                          (f_amount ?dto))\<rparr>)),
     empty_state\<lparr>wallets := (wallets empty_state)
            ((''U1'', f_currency ?dto) \<mapsto> (find_or_create empty_state ''U1'' (f_currency ?dto))
               \<lparr>w_balance := toFixed 2 (plus_decimal (balance_of empty_state ''U1'' (f_currency ?dto))
                                          (f_amount ?dto))\<rparr>),
        transactions := (transactions empty_state)
            (f_reference ?dto \<mapsto>
               (fund_transaction ''U1'' ?dto)\<lparr>t_toAmount := Some (toFixed 2 (f_amount ?dto)),
                                          t_status := COMPLETED\<rparr>),
        trace := trace empty_state @
           [FindTransaction (f_reference ?dto), StartTransaction,
            SaveTransaction (f_reference ?dto) PENDING,
            LockWallet ''U1'' (f_currency ?dto), SaveWallet ''U1'' (f_currency ?dto),
            SaveTransaction (f_reference ?dto) COMPLETED, CommitTransaction, Release]\<rparr>)"
    by (rule fundWallet_fresh) (simp_all add: b p t tr)
  then show ?thesis
    by (simp add: funded_state_def p t empty_state_def balance_of_def find_or_create_def
        new_wallet_def fund_transaction_def)
qed

lemma getRate_provider:
  assumes "cache s (NGN, USD) = None"
  shows "getRate provider_env NGN USD s =
     (Inr provider_rate,
      s\<lparr>cache := (cache s)((NGN, USD) \<mapsto> provider_rate),
        fx_rates := \<lparr>fr_fromCurrency = NGN, fr_toCurrency = USD, fr_rate = 65 / 100000,
                      fr_source = Some ''exchangerate-api'', fr_fetchedAt = 1700000000000\<rparr>
                    # fx_rates s,
        trace := trace s @ [CacheGet NGN USD, ApiGet NGN, CacheSet NGN USD, SaveRate NGN USD]\<rparr>)"
  using assms
  by (simp add: getRate_def fetchFromApi_def provider_env_def provider_rate_def Let_def
      saveRateToDatabase_def emit_def toFixed_def round_half_up_def)

lemma latest_history:
  "latest (filter (\<lambda>r. fr_fromCurrency r = NGN \<and> fr_toCurrency r = USD) (fx_rates history_state)) =
     Some history_entry"
  by (simp add: history_state_def history_entry_def empty_state_def)

lemma getRate_provider_usd:
  assumes "cache s (USD, NGN) = None"
  shows "getRate provider_env USD NGN s =
     (Inr provider_rate_usd,
      s\<lparr>cache := (cache s)((USD, NGN) \<mapsto> provider_rate_usd),
        fx_rates := \<lparr>fr_fromCurrency = USD, fr_toCurrency = NGN, fr_rate = 153846 / 100,
                      fr_source = Some ''exchangerate-api'', fr_fetchedAt = 1700000000000\<rparr>
                    # fx_rates s,
        trace := trace s @ [CacheGet USD NGN, ApiGet USD, CacheSet USD NGN, SaveRate USD NGN]\<rparr>)"
  using assms
  by (simp add: getRate_def fetchFromApi_def provider_env_def provider_rate_usd_def Let_def
      saveRateToDatabase_def emit_def toFixed_def round_half_up_def)

lemma convert_10000_simps [simp]:
  "c_fromCurrency convert_10000 = NGN" "c_toCurrency convert_10000 = USD"
  "c_amount convert_10000 = 10000" "c_reference convert_10000 = ''ref-2''"
  by (simp_all add: convert_10000_def)

lemma convert_fine_simps [simp]:
  "c_fromCurrency convert_fine = NGN" "c_toCurrency convert_fine = USD"
  "c_amount convert_fine = 15 / 1000" "c_reference convert_fine = ''ref-3''"
  by (simp_all add: convert_fine_def)

lemma convert_cent_simps [simp]:
  "c_fromCurrency convert_cent = NGN" "c_toCurrency convert_cent = USD"
  "c_amount convert_cent = 1 / 100" "c_reference convert_cent = ''ref-4''"
  by (simp_all add: convert_cent_def)

lemma convert_back_simps [simp]:
  "c_fromCurrency convert_back = USD" "c_toCurrency convert_back = NGN"
  "c_amount convert_back = 10" "c_reference convert_back = ''ref-5''"
  by (simp_all add: convert_back_def)

lemma ngn_state_simps [simp]:
  "wallets (ngn_state b) (''U1'', NGN) =
     Some \<lparr>w_userId = ''U1'', w_currency = NGN, w_balance = b, w_lockedBalance = 0\<rparr>"
  "wallets (ngn_state b) (''U1'', USD) = None"
  "transactions (ngn_state b) r = None"
  "cache (ngn_state b) k = None"
  "trace (ngn_state b) = []"
  "balance_of (ngn_state b) ''U1'' NGN = b"
  "balance_of (ngn_state b) ''U1'' USD = 0"
  "find_or_create (ngn_state b) ''U1'' NGN =
     \<lparr>w_userId = ''U1'', w_currency = NGN, w_balance = b, w_lockedBalance = 0\<rparr>"
  "find_or_create (ngn_state b) ''U1'' USD =
     \<lparr>w_userId = ''U1'', w_currency = USD, w_balance = 0, w_lockedBalance = 0\<rparr>"
  by (simp_all add: ngn_state_def empty_state_def balance_of_def find_or_create_def new_wallet_def)

lemma funded_state_simps [simp]:
  "wallets funded_state (''U1'', NGN) =
     Some \<lparr>w_userId = ''U1'', w_currency = NGN, w_balance = 50000, w_lockedBalance = 0\<rparr>"
  "wallets funded_state (''U1'', USD) = None"
  "transactions funded_state ''ref-2'' = None"
  "cache funded_state k = None"
  "balance_of funded_state ''U1'' NGN = 50000"
  "balance_of funded_state ''U1'' USD = 0"
  "find_or_create funded_state ''U1'' USD =
     \<lparr>w_userId = ''U1'', w_currency = USD, w_balance = 0, w_lockedBalance = 0\<rparr>"
  by (simp_all add: funded_state_eq balance_of_def find_or_create_def new_wallet_def)

lemma provider_rate_simps [simp]: "ri_rate provider_rate = 65 / 100000"
  by (simp add: provider_rate_def)

lemma getRate_provider_fst:
  "cache s (NGN, USD) = None \<Longrightarrow> fst (getRate provider_env NGN USD (emit e s)) = Inr provider_rate"
  by (simp add: getRate_provider)

lemma usd_state_simps [simp]:
  "wallets (usd_state b) (''U1'', USD) =
     Some \<lparr>w_userId = ''U1'', w_currency = USD, w_balance = b, w_lockedBalance = 0\<rparr>"
  "wallets (usd_state b) (''U1'', NGN) = None"
  "transactions (usd_state b) r = None"
  "cache (usd_state b) k = None"
  "trace (usd_state b) = []"
  by (simp_all add: usd_state_def empty_state_def)

lemma getRate_provider_usd_fst:
  "cache s (USD, NGN) = None \<Longrightarrow>
   fst (getRate provider_env USD NGN (emit e s)) = Inr provider_rate_usd"
  by (simp add: getRate_provider_usd)

lemma empty_state_nonneg: "balances_nonneg empty_state" "rates_nonneg empty_state"
  by (simp_all add: balances_nonneg_def rates_nonneg_def empty_state_def)

lemma ngn_state_nonneg: "0 \<le> b \<Longrightarrow> balances_nonneg (ngn_state b)" "rates_nonneg (ngn_state b)"
  by (simp_all add: balances_nonneg_def rates_nonneg_def ngn_state_def empty_state_def)

lemma provider_env_nonneg: "api_nonneg provider_env"
  by (auto simp: api_nonneg_def provider_env_def split: if_splits)

text \<open>
  What a conversion does when both gates are passed, the rate is resolved, the columns
  accept the values and the balance suffices.
\<close>

lemma convertCurrency_done_fst:
  assumes ne: "c_fromCurrency dto \<noteq> c_toCurrency dto"
    and fresh: "transactions s (c_reference dto) = None"
    and rate: "fst (getRate env (c_fromCurrency dto) (c_toCurrency dto)
                 (emit (FindTransaction (c_reference dto)) s)) = Inr ri"
    and amountok: "\<bar>toFixed 2 (c_amount dto)\<bar> < 10 ^ 13"
    and caok: "\<bar>convertAmount (c_amount dto) (ri_rate ri)\<bar> < 10 ^ 13"
    and rateok: "\<bar>toFixed 6 (ri_rate ri)\<bar> < 10 ^ 4"
    and src: "wallets s (u, c_fromCurrency dto) = Some w"
    and enough: "\<not> w_balance w < c_amount dto"
    and srcok: "\<bar>toFixed 2 (minus_decimal (w_balance w) (c_amount dto))\<bar> < 10 ^ 13"
    and dstok: "\<bar>toFixed 2 (plus_decimal (balance_of s u (c_toCurrency dto))
                               (convertAmount (c_amount dto) (ri_rate ri)))\<bar> < 10 ^ 13"
  shows "fst (convertCurrency env u dto s) =
      Inr (ConvertDone ''Currency converted successfully''
            ((convert_transaction u dto ri (convertAmount (c_amount dto) (ri_rate ri)))
               \<lparr>t_status := COMPLETED\<rparr>) ri)"
    and "transactions (snd (convertCurrency env u dto s)) (c_reference dto) =
      Some ((convert_transaction u dto ri (convertAmount (c_amount dto) (ri_rate ri)))
              \<lparr>t_fromAmount := Some (toFixed 2 (c_amount dto)),
               t_fxRate := Some (toFixed 6 (ri_rate ri)),
               t_status := COMPLETED\<rparr>)"
    and "balance_of (snd (convertCurrency env u dto s)) u (c_fromCurrency dto) =
           toFixed 2 (minus_decimal (w_balance w) (c_amount dto))"
    and "balance_of (snd (convertCurrency env u dto s)) u (c_toCurrency dto) =
           toFixed 2 (plus_decimal (balance_of s u (c_toCurrency dto))
                        (convertAmount (c_amount dto) (ri_rate ri)))"
    and "wallet_events s (snd (convertCurrency env u dto s)) =
           [LockWallet u (c_fromCurrency dto), SaveWallet u (c_fromCurrency dto),
            LockWallet u (c_toCurrency dto), SaveWallet u (c_toCurrency dto)]"
proof -
  let ?ca = "convertAmount (c_amount dto) (ri_rate ri)"
  obtain s2 where rate': "getRate env (c_fromCurrency dto) (c_toCurrency dto)
                 (emit (FindTransaction (c_reference dto)) s) = (Inr ri, s2)"
    using rate by (cases "getRate env (c_fromCurrency dto) (c_toCurrency dto)
                 (emit (FindTransaction (c_reference dto)) s)") simp
  have ca: "toFixed 2 ?ca = ?ca"
    by (simp add: convertAmount_def)
  have caok': "\<bar>toFixed 2 ?ca\<bar> < 10 ^ 13"
    using caok by (simp only: ca)
  note row = convert_transaction_row [OF amountok caok' rateok, of u]
  have dstok': "\<bar>toFixed 2 (plus_decimal (w_balance (find_or_create s u (c_toCurrency dto))) ?ca)\<bar>
      < 10 ^ 13"
    using dstok by (simp add: balance_of_def)
  note d = convertCurrency_done [OF ne fresh rate' row src enough srcok dstok']
  show "fst (convertCurrency env u dto s) =
      Inr (ConvertDone ''Currency converted successfully''
            ((convert_transaction u dto ri ?ca)\<lparr>t_status := COMPLETED\<rparr>) ri)"
    by (simp add: d)
  show "transactions (snd (convertCurrency env u dto s)) (c_reference dto) =
      Some ((convert_transaction u dto ri ?ca)
              \<lparr>t_fromAmount := Some (toFixed 2 (c_amount dto)),
               t_fxRate := Some (toFixed 6 (ri_rate ri)),
               t_status := COMPLETED\<rparr>)"
    by (simp add: d ca convert_transaction_def)
  show "balance_of (snd (convertCurrency env u dto s)) u (c_fromCurrency dto) =
           toFixed 2 (minus_decimal (w_balance w) (c_amount dto))"
    using ne by (simp add: d balance_of_def find_or_create_def)
  show "balance_of (snd (convertCurrency env u dto s)) u (c_toCurrency dto) =
           toFixed 2 (plus_decimal (balance_of s u (c_toCurrency dto)) ?ca)"
    using ne by (simp add: d balance_of_def find_or_create_def)
  obtain evs where evs: "trace s2 = (trace s @ [FindTransaction (c_reference dto)]) @ evs"
    and nw: "filter is_wallet_event evs = []"
    using getRate_trace [of env "c_fromCurrency dto" "c_toCurrency dto"
        "emit (FindTransaction (c_reference dto)) s"] rate'
    by auto
  show "wallet_events s (snd (convertCurrency env u dto s)) =
           [LockWallet u (c_fromCurrency dto), SaveWallet u (c_fromCurrency dto),
            LockWallet u (c_toCurrency dto), SaveWallet u (c_toCurrency dto)]"
    by (simp add: d wallet_events_def evs nw)
qed

text \<open>The arithmetic of the scenarios.\<close>

lemma scenario_arith:
  "toFixed 2 (minus_decimal 50000 10000) = 40000"
  "toFixed 2 (plus_decimal 0 (13 / 2)) = 13 / 2"
  "toFixed 2 (minus_decimal 1 (3 / 200)) = 99 / 100"
  "toFixed 2 (plus_decimal 0 0) = 0"
  "toFixed 2 (minus_decimal 50000 (1 / 100)) = 4999999 / 100"
  "toFixed 2 (minus_decimal 100 10) = 90"
  "toFixed 2 (plus_decimal 0 (76923 / 5)) = 76923 / 5"
  "toFixed 2 (plus_decimal 1 (- 2)) = - 1"
  "toFixed 2 (plus_decimal 5 (- 1)) = 4"
  "toFixed 2 (plus_decimal 5 (1 / 200)) = 501 / 100"
  "toFixed 2 (plus_decimal 40000 (7 / 2)) = 80007 / 2"
proof -
  show "toFixed 2 (minus_decimal 50000 10000) = 40000"
    using money_minus [of 50000 10000] by (simp add: fits_def)
  show "toFixed 2 (plus_decimal 0 (13 / 2)) = 13 / 2"
    using money_plus [of 0 "13 / 2"] by (simp add: fits_def)
  have m: "minus_decimal 1 (3 / 200) = 197 / 200"
    using minus_decimal_exact [of 3 1 "3 / 200" 1] by (simp add: fits_def)
  show "toFixed 2 (minus_decimal 1 (3 / 200)) = 99 / 100"
    by (simp add: m toFixed_def round_half_up_def)
  show "toFixed 2 (plus_decimal 0 0) = 0"
    using money_plus [of 0 0] by simp
  show "toFixed 2 (minus_decimal 50000 (1 / 100)) = 4999999 / 100"
    using money_minus [of 50000 "1 / 100"] by (simp add: fits_def)
  show "toFixed 2 (minus_decimal 100 10) = 90"
    using money_minus [of 100 10] by (simp add: fits_def)
  show "toFixed 2 (plus_decimal 0 (76923 / 5)) = 76923 / 5"
    using money_plus [of 0 "76923 / 5"] by (simp add: fits_def)
  show "toFixed 2 (plus_decimal 1 (- 2)) = - 1"
    using money_plus [of 1 "- 2"] by (simp add: fits_def)
  show "toFixed 2 (plus_decimal 5 (- 1)) = 4"
    using money_plus [of 5 "- 1"] by (simp add: fits_def)
  have p: "plus_decimal 5 (1 / 200) = 1001 / 200"
    using plus_decimal_exact [of 3 5 "1 / 200" 1] by (simp add: fits_def)
  show "toFixed 2 (plus_decimal 5 (1 / 200)) = 501 / 100"
    by (simp add: p toFixed_def round_half_up_def)
  show "toFixed 2 (plus_decimal 40000 (7 / 2)) = 80007 / 2"
    using money_plus [of 40000 "7 / 2"] by (simp add: fits_def)
qed

lemma scenario_columns:
  "\<bar>toFixed 2 (10000 :: rat)\<bar> < 10 ^ 13"
  "\<bar>toFixed 2 (3 / 200 :: rat)\<bar> < 10 ^ 13"
  "\<bar>toFixed 2 (1 / 100 :: rat)\<bar> < 10 ^ 13"
  "\<bar>toFixed 2 (10 :: rat)\<bar> < 10 ^ 13"
  "\<bar>toFixed 6 (13 / 20000 :: rat)\<bar> < 10 ^ 4"
  "\<bar>toFixed 6 (76923 / 50 :: rat)\<bar> < 10 ^ 4"
  "toFixed 2 (3 / 200 :: rat) = 1 / 50"
  "toFixed 2 (1 / 100 :: rat) = 1 / 100"
  "toFixed 2 (10000 :: rat) = 10000"
  "toFixed 6 (13 / 20000 :: rat) = 13 / 20000"
  "toFixed 2 (10 :: rat) = 10"
  "toFixed 6 (76923 / 50 :: rat) = 76923 / 50"
  by (simp_all add: toFixed_def round_half_up_def)

text \<open>
  Results of more than twenty significant digits are rounded before \<open>toFixed\<close> rounds
  again: \<open>6000000833.42 \<times> 1538.461538 = 9230770510184.61499...\<close> is first rounded to
  \<open>9230770510184.615\<close>, and \<open>1000000000000.00 - 0.0150000004\<close> to \<open>999999999999.985\<close>.
\<close>

lemma times_precision:
  "times_decimal (300000041671 / 50) (769230769 / 500000) = 1846154102036923 / 200"
  unfolding times_decimal_def
  by (subst toSignificantDigits_20_at [where e = 12]) (simp_all add: round_half_up_def)

lemma convertAmount_precision:
  "convertAmount (300000041671 / 50) (769230769 / 500000) = 461538525509231 / 50"
  by (simp add: convertAmount_def times_precision toFixed_def round_half_up_def)

lemma convertAmount_exact_product:
  "(300000041671 / 50) * (769230769 / 500000) = (230769262754615374999 / 25000000 :: rat)"
  "toFixed 2 (230769262754615374999 / 25000000) = 923077051018461 / 100"
  by (simp_all add: toFixed_def round_half_up_def)

lemma minus_precision:
  "minus_decimal 1000000000000 (37500001 / 2500000000) = 199999999999997 / 200"
  unfolding minus_decimal_def
  by (subst toSignificantDigits_20_at [where e = 11]) (simp_all add: round_half_up_def)

lemma plus_precision:
  "plus_decimal 1000000000000 (12499999 / 2500000000) = 200000000000001 / 200"
  unfolding plus_decimal_def
  by (subst toSignificantDigits_20_at [where e = 12]) (simp_all add: round_half_up_def)

lemma deductBalance_precision:
  "fst (deductBalance ''U1'' NGN (150000004 / 10000000000) (ngn_state 1000000000000)) =
     Inr \<lparr>w_userId = ''U1'', w_currency = NGN, w_balance = 99999999999999 / 100,
           w_lockedBalance = 0\<rparr>"
proof -
  have t: "toFixed 2 (minus_decimal 1000000000000 (37500001 / 2500000000)) = 99999999999999 / 100"
    by (simp add: minus_precision toFixed_def round_half_up_def)
  have "deductBalance ''U1'' NGN (37500001 / 2500000000) (ngn_state 1000000000000) =
      (Inr (\<lparr>w_userId = ''U1'', w_currency = NGN, w_balance = 1000000000000, w_lockedBalance = 0\<rparr>
              \<lparr>w_balance := toFixed 2 (minus_decimal
                  (w_balance \<lparr>w_userId = ''U1'', w_currency = NGN, w_balance = 1000000000000,
                               w_lockedBalance = 0\<rparr>) (37500001 / 2500000000))\<rparr>),
       (ngn_state 1000000000000)
         \<lparr>wallets := (wallets (ngn_state 1000000000000))
            ((''U1'', NGN) \<mapsto>
               \<lparr>w_userId = ''U1'', w_currency = NGN, w_balance = 1000000000000, w_lockedBalance = 0\<rparr>
               \<lparr>w_balance := toFixed 2 (minus_decimal
                  (w_balance \<lparr>w_userId = ''U1'', w_currency = NGN, w_balance = 1000000000000,
                               w_lockedBalance = 0\<rparr>) (37500001 / 2500000000))\<rparr>),
           trace := trace (ngn_state 1000000000000) @ [LockWallet ''U1'' NGN, SaveWallet ''U1'' NGN]\<rparr>)"
    by (rule deductBalance_ok) (simp_all add: t)
  then show ?thesis by (simp add: t)
qed

lemma addBalance_precision:
  "fst (addBalance ''U1'' NGN (49999996 / 10000000000) (ngn_state 1000000000000)) =
     Inr \<lparr>w_userId = ''U1'', w_currency = NGN, w_balance = 100000000000001 / 100,
           w_lockedBalance = 0\<rparr>"
proof -
  have t: "toFixed 2 (plus_decimal 1000000000000 (12499999 / 2500000000)) = 100000000000001 / 100"
    by (simp add: plus_precision toFixed_def round_half_up_def)
  have ok: "\<bar>toFixed 2 (plus_decimal (w_balance (find_or_create (ngn_state 1000000000000) ''U1'' NGN))
                            (12499999 / 2500000000))\<bar> < 10 ^ 13"
    by (simp add: t)
  from addBalance_ok [OF ok] show ?thesis by (simp add: t)
qed

section \<open>The claims\<close>

text \<open>
  C1. For every funding request and every conversion request whose reference already has
  a transaction record: if the record is COMPLETED the call returns the stored record, if
  PENDING it is rejected as being processed, if FAILED it is rejected with a demand for a
  new reference. In all three cases the state returned is the state given plus the one
  lookup event: no wallet and no transaction is written and no unit of work is started, so
  execution proceeds only when no record exists. (A conversion request is one between two
  different currencies: a request from a currency to itself is invalid and is refused
  before the lookup, which is C6.)
\<close>

theorem idempotency_gate:
  assumes "transactions s reference = Some existing"
  shows "(f_reference fundDto = reference \<longrightarrow>
          fundWallet userId fundDto s =
            (case t_status existing of
               COMPLETED \<Rightarrow> Inr (FundAlreadyProcessed ''Transaction already processed'' existing)
             | PENDING \<Rightarrow> Inl (BadRequestException ''Transaction is being processed. Please wait.'')
             | FAILED \<Rightarrow>
                 Inl (BadRequestException ''Transaction has failed. Please use a new reference.''),
             emit (FindTransaction reference) s))
       \<and> (c_reference convertDto = reference \<longrightarrow>
          c_fromCurrency convertDto \<noteq> c_toCurrency convertDto \<longrightarrow>
          convertCurrency env userId convertDto s =
            (case t_status existing of
               COMPLETED \<Rightarrow> Inr (ConvertAlreadyProcessed ''Conversion already processed'' existing)
             | PENDING \<Rightarrow> Inl (BadRequestException ''Conversion is being processed. Please wait.'')
             | FAILED \<Rightarrow>
                 Inl (BadRequestException ''Conversion has failed. Please use a new reference.''),
             emit (FindTransaction reference) s))"
  using assms fundWallet_known [of s fundDto existing userId]
    convertCurrency_known [of convertDto s existing env userId]
  by auto

theorem idempotency_gate_witness:
  "fundWallet ''U1'' \<lparr>f_currency = NGN, f_amount = 50000, f_reference = ''ref-1''\<rparr> funded_state =
     (Inr (FundAlreadyProcessed ''Transaction already processed''
        ((fund_transaction ''U1'' \<lparr>f_currency = NGN, f_amount = 50000, f_reference = ''ref-1''\<rparr>)
           \<lparr>t_status := COMPLETED\<rparr>)),
      emit (FindTransaction ''ref-1'') funded_state)
   \<and> convertCurrency provider_env ''U1''
       \<lparr>c_fromCurrency = NGN, c_toCurrency = USD, c_amount = 10000, c_reference = ''ref-1''\<rparr>
       funded_state =
     (Inr (ConvertAlreadyProcessed ''Conversion already processed''
        ((fund_transaction ''U1'' \<lparr>f_currency = NGN, f_amount = 50000, f_reference = ''ref-1''\<rparr>)
           \<lparr>t_status := COMPLETED\<rparr>)),
      emit (FindTransaction ''ref-1'') funded_state)"
proof -
  have t: "transactions funded_state ''ref-1'' =
      Some ((fund_transaction ''U1'' \<lparr>f_currency = NGN, f_amount = 50000, f_reference = ''ref-1''\<rparr>)
           \<lparr>t_status := COMPLETED\<rparr>)"
    by (simp add: funded_state_eq)
  show ?thesis
    using idempotency_gate [OF t,
        of "\<lparr>f_currency = NGN, f_amount = 50000, f_reference = ''ref-1''\<rparr>" "''U1''"
           "\<lparr>c_fromCurrency = NGN, c_toCurrency = USD, c_amount = 10000, c_reference = ''ref-1''\<rparr>"
           provider_env]
    by simp
qed

text \<open>
  C2 (the code departs from the claim). A conversion of 10000 NGN from a balance of 5000
  fails in \<open>deductBalance\<close> after the pending transaction was inserted. The rollback
  reverts the wallets, and with them the pending insert, which was made through the same
  query runner. The lookup that follows finds no transaction for the reference, so nothing
  is marked FAILED: the journal has no record of the attempt.
\<close>

theorem convert_failure_journals_nothing:
  "fst (convertCurrency provider_env ''U1''
          \<lparr>c_fromCurrency = NGN, c_toCurrency = USD, c_amount = 10000, c_reference = ''ref-2''\<rparr>
          (ngn_state 5000)) =
     Inl (BadRequestException ''Insufficient balance in NGN wallet'')
   \<and> wallets (snd (convertCurrency provider_env ''U1''
          \<lparr>c_fromCurrency = NGN, c_toCurrency = USD, c_amount = 10000, c_reference = ''ref-2''\<rparr>
          (ngn_state 5000))) = wallets (ngn_state 5000)
   \<and> transactions (snd (convertCurrency provider_env ''U1''
          \<lparr>c_fromCurrency = NGN, c_toCurrency = USD, c_amount = 10000, c_reference = ''ref-2''\<rparr>
          (ngn_state 5000))) ''ref-2'' = None
   \<and> trace (snd (convertCurrency provider_env ''U1''
          \<lparr>c_fromCurrency = NGN, c_toCurrency = USD, c_amount = 10000, c_reference = ''ref-2''\<rparr>
          (ngn_state 5000))) =
       [FindTransaction ''ref-2'', CacheGet NGN USD, ApiGet NGN, CacheSet NGN USD, SaveRate NGN USD,
        StartTransaction, SaveTransaction ''ref-2'' PENDING, LockWallet ''U1'' NGN,
        RollbackTransaction, FindTransaction ''ref-2'', Release]"
proof -
  let ?dto = "\<lparr>c_fromCurrency = NGN, c_toCurrency = USD, c_amount = 10000, c_reference = ''ref-2''\<rparr>"
  let ?s = "ngn_state 5000"
  have c: "cache (emit (FindTransaction ''ref-2'') ?s) (NGN, USD) = None"
    by (simp add: ngn_state_def empty_state_def)
  note rate = getRate_provider [OF c]
  have fresh: "transactions ?s (c_reference ?dto) = None"
    by (simp add: ngn_state_def empty_state_def)
  have src: "wallets ?s (''U1'', c_fromCurrency ?dto) =
      Some \<lparr>w_userId = ''U1'', w_currency = NGN, w_balance = 5000, w_lockedBalance = 0\<rparr>"
    by (simp add: ngn_state_def empty_state_def)
  have row: "transaction_row
      (convert_transaction ''U1'' ?dto provider_rate
         (convertAmount (c_amount ?dto) (ri_rate provider_rate))) =
      Inr ((convert_transaction ''U1'' ?dto provider_rate
              (convertAmount (c_amount ?dto) (ri_rate provider_rate)))
             \<lparr>t_fromAmount := Some (toFixed 2 (c_amount ?dto)),
              t_toAmount := Some (toFixed 2 (convertAmount (c_amount ?dto) (ri_rate provider_rate))),
              t_fxRate := Some (toFixed 6 (ri_rate provider_rate))\<rparr>)"
    by (rule convert_transaction_row)
       (simp_all add: convertAmount_scenario toFixed_def round_half_up_def)
  show ?thesis
    using convertCurrency_short [of ?dto ?s provider_env provider_rate _ "''U1''", OF _ fresh _ row src]
      rate fresh
    by (simp add: ngn_state_def empty_state_def)
qed




text \<open>
  C4 (the code departs from the claim). Nothing restricts a conversion amount to two
  fractional digits. A conversion of 0.015 NGN from a balance of 1.00 completes: the
  response reports \<open>fromAmount\<close> 0.015, the journal row stores 0.02 (the column rounds the
  amount), and the wallet is debited by 0.01 (\<open>1.00 - 0.015 = 0.985\<close> is stored as 0.99).
  The amount debited is neither the amount requested nor the amount journaled. The amount
  credited is \<open>convertAmount\<close> of the amount and the rate, which rounds the product to twenty
  significant digits before it rounds to two fractional digits: 6000000833.42 at 1538.461538
  gives 9230770510184.62, where the product rounded to two fractional digits is
  9230770510184.61. The claim's own example holds: 10000.00 NGN at 0.000650 from 50000.00
  NGN gives \<open>"6.50"\<close>, and leaves 40000.00 NGN and 6.50 USD.
\<close>

theorem convert_fine_amount_divergence:
  "c_amount convert_fine = 15 / 1000
   \<and> fst (convertCurrency provider_env ''U1'' convert_fine (ngn_state 1)) =
       Inr (ConvertDone ''Currency converted successfully''
              \<lparr>t_userId = ''U1'', t_type = CONVERT, t_fromCurrency = Some NGN,
               t_fromAmount = Some (15 / 1000), t_toCurrency = Some USD, t_toAmount = Some 0,
               t_fxRate = Some (65 / 100000), t_status = COMPLETED, t_reference = ''ref-3'',
               t_metadata = RateMetadata ''exchangerate-api'' 1700000000000 0 None,
               t_errorMessage = None\<rparr>
              provider_rate)
   \<and> transactions (snd (convertCurrency provider_env ''U1'' convert_fine (ngn_state 1))) ''ref-3'' =
       Some \<lparr>t_userId = ''U1'', t_type = CONVERT, t_fromCurrency = Some NGN,
             t_fromAmount = Some (2 / 100), t_toCurrency = Some USD, t_toAmount = Some 0,
             t_fxRate = Some (65 / 100000), t_status = COMPLETED, t_reference = ''ref-3'',
             t_metadata = RateMetadata ''exchangerate-api'' 1700000000000 0 None,
             t_errorMessage = None\<rparr>
   \<and> balance_of (ngn_state 1) ''U1'' NGN = 1
   \<and> balance_of (snd (convertCurrency provider_env ''U1'' convert_fine (ngn_state 1))) ''U1'' NGN
       = 99 / 100
   \<and> balance_of (snd (convertCurrency provider_env ''U1'' convert_fine (ngn_state 1))) ''U1'' USD
       = 0
   \<and> (1 :: rat) - 99 / 100 \<noteq> 15 / 1000
   \<and> (1 :: rat) - 99 / 100 \<noteq> 2 / 100
   \<and> convertAmount (600000083342 / 100) (1538461538 / 1000000) = 923077051018462 / 100
   \<and> toFixed 2 ((600000083342 / 100) * (1538461538 / 1000000)) = 923077051018461 / 100
   \<and> convertAmount_string 10000 (65 / 100000) = ''6.50''
   \<and> fst (convertCurrency provider_env ''U1'' convert_10000 funded_state) =
       Inr (ConvertDone ''Currency converted successfully''
              \<lparr>t_userId = ''U1'', t_type = CONVERT, t_fromCurrency = Some NGN,
               t_fromAmount = Some 10000, t_toCurrency = Some USD, t_toAmount = Some (13 / 2),
               t_fxRate = Some (65 / 100000), t_status = COMPLETED, t_reference = ''ref-2'',
               t_metadata = RateMetadata ''exchangerate-api'' 1700000000000 0 None,
               t_errorMessage = None\<rparr>
              provider_rate)
   \<and> balance_of (snd (convertCurrency provider_env ''U1'' convert_10000 funded_state)) ''U1'' NGN
       = 40000
   \<and> balance_of (snd (convertCurrency provider_env ''U1'' convert_10000 funded_state)) ''U1'' USD
       = 13 / 2"
proof -
  note fine = convertCurrency_done_fst(1-4) [of convert_fine "ngn_state 1" provider_env provider_rate
      "''U1''" "\<lparr>w_userId = ''U1'', w_currency = NGN, w_balance = 1, w_lockedBalance = 0\<rparr>"]
  note scen = convertCurrency_done_fst(1-4) [of convert_10000 funded_state provider_env provider_rate
      "''U1''" "\<lparr>w_userId = ''U1'', w_currency = NGN, w_balance = 50000, w_lockedBalance = 0\<rparr>"]
  have a: "fst (convertCurrency provider_env ''U1'' convert_fine (ngn_state 1)) =
       Inr (ConvertDone ''Currency converted successfully''
              ((convert_transaction ''U1'' convert_fine provider_rate 0)\<lparr>t_status := COMPLETED\<rparr>)
              provider_rate)"
    using fine(1)
    by (simp add: getRate_provider_fst convertAmount_fine scenario_arith scenario_columns)
  have b: "transactions (snd (convertCurrency provider_env ''U1'' convert_fine (ngn_state 1)))
        ''ref-3'' =
      Some ((convert_transaction ''U1'' convert_fine provider_rate 0)
              \<lparr>t_fromAmount := Some (1 / 50), t_fxRate := Some (13 / 20000),
               t_status := COMPLETED\<rparr>)"
    using fine(2)
    by (simp add: getRate_provider_fst convertAmount_fine scenario_arith scenario_columns)
  have c: "balance_of (snd (convertCurrency provider_env ''U1'' convert_fine (ngn_state 1)))
        ''U1'' NGN = 99 / 100"
    using fine(3)
    by (simp add: getRate_provider_fst convertAmount_fine scenario_arith scenario_columns)
  have d: "balance_of (snd (convertCurrency provider_env ''U1'' convert_fine (ngn_state 1)))
        ''U1'' USD = 0"
    using fine(4)
    by (simp add: getRate_provider_fst convertAmount_fine scenario_arith scenario_columns)
  have e: "fst (convertCurrency provider_env ''U1'' convert_10000 funded_state) =
       Inr (ConvertDone ''Currency converted successfully''
              ((convert_transaction ''U1'' convert_10000 provider_rate (13 / 2))
                 \<lparr>t_status := COMPLETED\<rparr>)
              provider_rate)"
    using scen(1)
    by (simp add: getRate_provider_fst convertAmount_scenario scenario_arith scenario_columns)
  have f: "balance_of (snd (convertCurrency provider_env ''U1'' convert_10000 funded_state))
        ''U1'' NGN = 40000"
    using scen(3)
    by (simp add: getRate_provider_fst convertAmount_scenario scenario_arith scenario_columns)
  have g: "balance_of (snd (convertCurrency provider_env ''U1'' convert_10000 funded_state))
        ''U1'' USD = 13 / 2"
    using scen(4)
    by (simp add: getRate_provider_fst convertAmount_scenario scenario_arith scenario_columns)
  show ?thesis
    by (simp add: a b c d e f g convertAmount_scenario convertAmount_precision
        convertAmount_exact_product convert_transaction_def provider_rate_def)
qed

text \<open>
  C5, as amended. When the pair is not cached, the provider tier fails (the request fails
  or the cache refuses the new rate) and the rate history holds an entry for the pair,
  \<open>getRate\<close> takes the most recent such entry and fails with ``Exchange rate service
  unavailable'' exactly when the entry's age in seconds is at least 3600, and otherwise
  returns the stored rate with the computed age and a non-empty warning. An entry aged
  3601 seconds fails and one aged 3599 seconds succeeds with a warning.
\<close>

theorem getRate_fallback_ceiling:
  assumes "fromCurrency \<noteq> toCurrency"
    and "cache s (fromCurrency, toCurrency) = None"
    and "fetchFromApi env fromCurrency toCurrency = Inl e \<or> \<not> cache_set_ok env"
    and "rate_read_ok env"
    and "latest (filter (\<lambda>r. fr_fromCurrency r = fromCurrency \<and> fr_toCurrency r = toCurrency)
                   (fx_rates s)) = Some entry"
    and "ageSeconds = (now env - fr_fetchedAt entry) div 1000"
  shows "fst (getRate env fromCurrency toCurrency s) =
           (if 3600 \<le> ageSeconds
            then Inl (Error ''Exchange rate service unavailable. Please try again later.'')
            else Inr ((last_known entry)
                        \<lparr>ri_ageSeconds := ageSeconds, ri_warning := Some (stale_warning ageSeconds)\<rparr>))
         \<and> ri_rate (last_known entry) = fr_rate entry
         \<and> stale_warning ageSeconds \<noteq> []
         \<and> entry \<in> set (fx_rates s)
         \<and> fr_fromCurrency entry = fromCurrency \<and> fr_toCurrency entry = toCurrency
         \<and> (\<forall>r \<in> set (fx_rates s).
               fr_fromCurrency r = fromCurrency \<and> fr_toCurrency r = toCurrency \<longrightarrow>
               fr_fetchedAt r \<le> fr_fetchedAt entry)"
proof -
  have last: "getLastKnownRate env fromCurrency toCurrency s' = Some (last_known entry)"
    if "fx_rates s' = fx_rates s" for s'
    using assms(4,5) that by (simp add: getLastKnownRate_def)
  have fb: "fst (rate_fallback env fromCurrency toCurrency s') =
      (if 3600 \<le> ageSeconds
       then Inl (Error ''Exchange rate service unavailable. Please try again later.'')
       else Inr ((last_known entry)
                   \<lparr>ri_ageSeconds := ageSeconds, ri_warning := Some (stale_warning ageSeconds)\<rparr>))"
    if "fx_rates s' = fx_rates s" for s'
    using that assms(6) by (simp add: rate_fallback_def Let_def last last_known_def)
  have "fst (getRate env fromCurrency toCurrency s) =
      (if 3600 \<le> ageSeconds
       then Inl (Error ''Exchange rate service unavailable. Please try again later.'')
       else Inr ((last_known entry)
                   \<lparr>ri_ageSeconds := ageSeconds, ri_warning := Some (stale_warning ageSeconds)\<rparr>))"
    using assms(1,2,3)
    by (auto simp: getRate_def Let_def fb split: sum.splits)
  then show ?thesis
    using latest_filter [OF assms(5)] by (simp add: stale_warning_nonempty last_known_def)
qed

theorem getRate_fallback_ceiling_witness:
  "fst (getRate (outage_env 3601000) NGN USD history_state) =
     Inl (Error ''Exchange rate service unavailable. Please try again later.'')
   \<and> fst (getRate (outage_env 3599000) NGN USD history_state) =
     Inr \<lparr>ri_fromCurrency = NGN, ri_toCurrency = USD, ri_rate = 65 / 100000, ri_timestamp = 0,
           ri_ageSeconds = 3599, ri_source = ''exchangerate-api'',
           ri_warning = Some (stale_warning 3599)\<rparr>
   \<and> stale_warning 3599 \<noteq> []"
proof -
  have c: "cache history_state (NGN, USD) = None"
    by (simp add: history_state_def empty_state_def)
  have f: "fetchFromApi (outage_env t) NGN USD = Inl (Error ''timeout'') \<or> \<not> cache_set_ok (outage_env t)" for t
    by (simp add: fetchFromApi_def outage_env_def)
  have r: "rate_read_ok (outage_env t)" for t
    by (simp add: outage_env_def)
  have a1: "(3601::int) = (now (outage_env 3601000) - fr_fetchedAt history_entry) div 1000"
    by (simp add: outage_env_def history_entry_def)
  have a2: "(3599::int) = (now (outage_env 3599000) - fr_fetchedAt history_entry) div 1000"
    by (simp add: outage_env_def history_entry_def)
  show ?thesis
    using getRate_fallback_ceiling [OF _ c f r latest_history a1]
          getRate_fallback_ceiling [OF _ c f r latest_history a2]
    by (simp add: last_known_def history_entry_def)
qed

text \<open>
  C5 as stated lets an entry aged exactly 3600 seconds through (3600 does not exceed the
  ceiling of 3600); the code rejects it.
\<close>

theorem getRate_exactly_one_hour_counterexample:
  "(now (outage_env 3600000) - fr_fetchedAt history_entry) div 1000 = 3600
   \<and> \<not> (3600 < (3600::int))
   \<and> fst (getRate (outage_env 3600000) NGN USD history_state) =
       Inl (Error ''Exchange rate service unavailable. Please try again later.'')"
  by (simp add: getRate_def rate_fallback_def getLastKnownRate_def fetchFromApi_def last_known_def
      outage_env_def history_state_def history_entry_def empty_state_def Let_def)

text \<open>
  C6. A conversion whose source and destination currency are equal is rejected with
  ``Cannot convert to the same currency'' (the spec's SameCurrency) and returns the state it
  was given: no event is recorded, so there is no idempotency lookup, no rate lookup and no
  lock, and no table is written.
\<close>

theorem convert_same_currency_rejected:
  "c_fromCurrency dto = c_toCurrency dto \<Longrightarrow>
   convertCurrency env userId dto s =
     (Inl (BadRequestException ''Cannot convert to the same currency''), s)"
  by (simp add: convertCurrency_def)

theorem convert_same_currency_rejected_witness:
  "convertCurrency provider_env ''U1''
     \<lparr>c_fromCurrency = USD, c_toCurrency = USD, c_amount = 10, c_reference = ''ref''\<rparr>
     (ngn_state 50000) =
   (Inl (BadRequestException ''Cannot convert to the same currency''), ngn_state 50000)"
  using convert_same_currency_rejected
    [of "\<lparr>c_fromCurrency = USD, c_toCurrency = USD, c_amount = 10, c_reference = ''ref''\<rparr>"
        provider_env "''U1''" "ngn_state 50000"]
  by simp




text \<open>
  C8, as amended. In every completed conversion the wallet rows are locked and written in
  the order: lock the source row, write the source row, lock the destination row, write
  the destination row. Each row is locked before it is written, the destination row is
  locked only after the source row has been written, and the source row is always locked
  first, whatever the two currency codes are.
\<close>

theorem convert_lock_order:
  "fst (convertCurrency env userId dto s) = Inr (ConvertDone msg transaction rateInfo) \<Longrightarrow>
   wallet_events s (snd (convertCurrency env userId dto s)) =
     [LockWallet userId (c_fromCurrency dto), SaveWallet userId (c_fromCurrency dto),
      LockWallet userId (c_toCurrency dto), SaveWallet userId (c_toCurrency dto)]"
  by (rule convertCurrency_done_events)

theorem convert_lock_order_witness:
  "wallet_events funded_state (snd (convertCurrency provider_env ''U1'' convert_10000 funded_state)) =
     [LockWallet ''U1'' NGN, SaveWallet ''U1'' NGN, LockWallet ''U1'' USD, SaveWallet ''U1'' USD]"
proof -
  have d: "fst (convertCurrency provider_env ''U1'' convert_10000 funded_state) =
     Inr (ConvertDone ''Currency converted successfully''
            ((convert_transaction ''U1'' convert_10000 provider_rate
                (convertAmount (c_amount convert_10000) (ri_rate provider_rate)))
               \<lparr>t_status := COMPLETED\<rparr>) provider_rate)"
    by (rule convertCurrency_done_fst(1) [where w = "\<lparr>w_userId = ''U1'', w_currency = NGN,
          w_balance = 50000, w_lockedBalance = 0\<rparr>"])
       (simp_all add: getRate_provider_fst convertAmount_scenario scenario_arith scenario_columns)
  from convert_lock_order [OF d] show ?thesis by simp
qed

text \<open>
  C8 as stated has both rows locked before either is written, in the lexicographic order
  of the currency codes whatever the direction. Converting USD to NGN locks and writes the
  USD row before it locks the NGN row, although NGN precedes USD; converting NGN to USD
  locks the NGN row first.
\<close>

theorem convert_lock_order_counterexample:
  "wallet_events (usd_state 100) (snd (convertCurrency provider_env ''U1'' convert_back (usd_state 100))) =
     [LockWallet ''U1'' USD, SaveWallet ''U1'' USD, LockWallet ''U1'' NGN, SaveWallet ''U1'' NGN]
   \<and> wallet_events (ngn_state 50000)
        (snd (convertCurrency provider_env ''U1'' convert_10000 (ngn_state 50000))) =
     [LockWallet ''U1'' NGN, SaveWallet ''U1'' NGN, LockWallet ''U1'' USD, SaveWallet ''U1'' USD]
   \<and> currency_code NGN < currency_code USD"
proof -
  have bal: "balance_of (usd_state 100) ''U1'' NGN = 0"
    by (simp add: balance_of_def find_or_create_def new_wallet_def)
  have a: "wallet_events (usd_state 100)
        (snd (convertCurrency provider_env ''U1'' convert_back (usd_state 100))) =
     [LockWallet ''U1'' (c_fromCurrency convert_back), SaveWallet ''U1'' (c_fromCurrency convert_back),
      LockWallet ''U1'' (c_toCurrency convert_back), SaveWallet ''U1'' (c_toCurrency convert_back)]"
    by (rule convertCurrency_done_fst(5) [where w = "\<lparr>w_userId = ''U1'', w_currency = USD,
          w_balance = 100, w_lockedBalance = 0\<rparr>" and ri = provider_rate_usd])
       (simp_all add: getRate_provider_usd_fst convertAmount_back scenario_arith scenario_columns
          bal provider_rate_usd_def)
  have b: "wallet_events (ngn_state 50000)
        (snd (convertCurrency provider_env ''U1'' convert_10000 (ngn_state 50000))) =
     [LockWallet ''U1'' (c_fromCurrency convert_10000), SaveWallet ''U1'' (c_fromCurrency convert_10000),
      LockWallet ''U1'' (c_toCurrency convert_10000), SaveWallet ''U1'' (c_toCurrency convert_10000)]"
    by (rule convertCurrency_done_fst(5) [where w = "\<lparr>w_userId = ''U1'', w_currency = NGN,
          w_balance = 50000, w_lockedBalance = 0\<rparr>" and ri = provider_rate])
       (simp_all add: getRate_provider_fst convertAmount_scenario scenario_arith scenario_columns)
  show ?thesis by (simp add: a b)
qed

text \<open>
  C9. For every currency, \<open>getRate\<close> from the currency to itself returns the rate 1 (the
  string \<open>"1.000000"\<close>), age 0 and source \<open>"direct"\<close>, and returns the state it was given:
  neither the cache, nor the provider, nor the rate history is consulted.
\<close>

theorem getRate_same_currency:
  "getRate env currency currency s =
     (Inr \<lparr>ri_fromCurrency = currency, ri_toCurrency = currency, ri_rate = 1,
            ri_timestamp = now env, ri_ageSeconds = 0, ri_source = ''direct'',
            ri_warning = None\<rparr>, s)
   \<and> toFixed_string 6 1 = ''1.000000''"
  by (simp add: getRate_def toFixed_string_def round_half_up_def show_nat_0 show_nat_1 replicate_5)



end
